theory Spec2Isabelle
  imports Main "HOL-Library.List_Lexorder" "HOL-Library.Sublist" "HOL-Library.Multiset"
begin

section \<open>Python strings\<close>

text \<open>
  A Python \<open>str\<close> is a sequence of Unicode code points. It is modelled as a list of
  natural numbers, one per code point, so that \<open>length\<close> counts what Python's
  \<open>len\<close> counts and the order of \<open>HOL-Library.List_Lexorder\<close> is the order in
  which Python compares strings (code point by code point, a proper prefix first).
  \<open>u\<close> turns an ASCII literal into its code points; the one letter of the
  repository outside ASCII is U+00F8, written \<open>0xF8\<close>.
\<close>

type_synonym pystr = "nat list"

definition u :: "string \<Rightarrow> pystr" where
  "u s = map of_char s"

text \<open>
  The case tables of \<open>str.lower\<close> and \<open>str.title\<close> are given for Basic Latin and
  the Latin-1 Supplement (code points below U+0100), which hold every thinker name of
  the repository. \<open>to_title_full\<close> returns a list because one code point can
  title-case to two (U+00DF gives \<open>Ss\<close>), and two code points of Latin-1 leave it
  (U+00B5 gives U+039C, U+00FF gives U+0178). From U+0100 on the tables below leave a
  code point as it is and class it as uncased.
\<close>

definition to_lower :: "nat \<Rightarrow> nat" where
  "to_lower c =
     (if (0x41 \<le> c \<and> c \<le> 0x5A) \<or> (0xC0 \<le> c \<and> c \<le> 0xDE \<and> c \<noteq> 0xD7)
      then c + 0x20 else c)"

definition to_title_full :: "nat \<Rightarrow> nat list" where
  "to_title_full c =
     (if (0x61 \<le> c \<and> c \<le> 0x7A) \<or> (0xE0 \<le> c \<and> c \<le> 0xFE \<and> c \<noteq> 0xF7)
      then [c - 0x20]
      else if c = 0xB5 then [0x39C]
      else if c = 0xDF then [0x53, 0x73]
      else if c = 0xFF then [0x178]
      else [c])"

definition is_cased :: "nat \<Rightarrow> bool" where
  "is_cased c =
     ((0x41 \<le> c \<and> c \<le> 0x5A) \<or> (0x61 \<le> c \<and> c \<le> 0x7A)
      \<or> c = 0xAA \<or> c = 0xB5 \<or> c = 0xBA
      \<or> (0xC0 \<le> c \<and> c \<le> 0xFF \<and> c \<noteq> 0xD7 \<and> c \<noteq> 0xF7))"

text \<open>
  The white space of \<open>str.strip()\<close> without argument: the code points for which
  \<open>str.isspace\<close> holds, over the whole of Unicode.
\<close>

definition is_space :: "nat \<Rightarrow> bool" where
  "is_space c =
     ((0x09 \<le> c \<and> c \<le> 0x0D) \<or> (0x1C \<le> c \<and> c \<le> 0x20)
      \<or> c = 0x85 \<or> c = 0xA0 \<or> c = 0x1680
      \<or> (0x2000 \<le> c \<and> c \<le> 0x200A)
      \<or> c = 0x2028 \<or> c = 0x2029 \<or> c = 0x202F \<or> c = 0x205F \<or> c = 0x3000)"

definition lower :: "pystr \<Rightarrow> pystr" where
  "lower s = map to_lower s"

text \<open>
  \<open>str.title()\<close>: a code point is title-cased when the one before it is not cased
  (or there is none), and lower-cased otherwise. A hyphen, a space and an underscore
  are not cased, so each starts a new word.
\<close>

fun do_title :: "bool \<Rightarrow> pystr \<Rightarrow> pystr" where
  "do_title previous_is_cased [] = []"
| "do_title previous_is_cased (c # cs) =
     (if previous_is_cased then [to_lower c] else to_title_full c)
       @ do_title (is_cased c) cs"

definition title :: "pystr \<Rightarrow> pystr" where
  "title s = do_title False s"

definition strip :: "pystr \<Rightarrow> pystr" where
  "strip s = rev (dropWhile is_space (rev (dropWhile is_space s)))"

text \<open>
  \<open>str.replace(old, new)\<close> replaces every occurrence of \<open>old\<close>, scanning from the
  left and resuming after each replaced occurrence. With an empty \<open>old\<close> Python puts
  \<open>new\<close> before every code point and at the end.
\<close>

function replace_from :: "pystr \<Rightarrow> pystr \<Rightarrow> pystr \<Rightarrow> pystr" where
  "replace_from old new [] = []"
| "replace_from old new (c # cs) =
     (if old \<noteq> [] \<and> prefix old (c # cs)
      then new @ replace_from old new (drop (length old) (c # cs))
      else c # replace_from old new cs)"
  by pat_completeness auto
termination
  by (relation "measure (\<lambda>(old, new, s). length s)") (auto simp: neq_Nil_conv)

definition replace :: "pystr \<Rightarrow> pystr \<Rightarrow> pystr \<Rightarrow> pystr" where
  "replace old new s =
     (if old = [] then new @ concat (map (\<lambda>c. c # new) s) else replace_from old new s)"

text \<open>Python truthiness of an optional string: \<open>None\<close> and \<open>""\<close> are false.\<close>

fun truthy :: "pystr option \<Rightarrow> bool" where
  "truthy None = False"
| "truthy (Some s) = (s \<noteq> [])"

section \<open>Naming convention\<close>

text \<open>
  \<open>thinker_name.replace(' ', '_').lower()\<close>, the slug of all three scripts that build
  a file name, and the two file names built on it.
\<close>

definition slug :: "pystr \<Rightarrow> pystr" where
  "slug thinker_name = lower (replace (u '' '') (u ''_'') thinker_name)"

definition essay_filename :: "pystr \<Rightarrow> pystr" where
  "essay_filename thinker_name = slug thinker_name @ u ''_meaning.txt''"

definition questionnaire_filename :: "pystr \<Rightarrow> pystr" where
  "questionnaire_filename thinker_name = slug thinker_name @ u ''_questionnaire.txt''"

text \<open>
  \<open>Path.stem\<close>: the final component without its last suffix; a dot that is the first
  or the last character of the name does not start a suffix.
\<close>

definition rfind :: "nat \<Rightarrow> pystr \<Rightarrow> nat option" where
  "rfind c s =
     (if c \<in> set s then Some (length s - 1 - length (takeWhile (\<lambda>x. x \<noteq> c) (rev s)))
      else None)"

definition stem :: "pystr \<Rightarrow> pystr" where
  "stem name =
     (case rfind 0x2E name of
        None \<Rightarrow> name
      | Some i \<Rightarrow> if 0 < i \<and> i < length name - 1 then take i name else name)"

text \<open>
  The names of the override table of \<open>get_available_thinkers\<close>, and the name its
  first test compares with.
\<close>

definition jean_paul_sartre :: pystr where
  "jean_paul_sartre = u ''Jean-Paul Sartre''"

definition jean_paul_lowercase_p :: pystr where
  "jean_paul_lowercase_p = u ''Jean-paul Sartre''"

definition soren_kierkegaard :: pystr where
  "soren_kierkegaard = u ''S'' @ [0xF8] @ u ''ren Kierkegaard''"

text \<open>
  The body of the loop of \<open>get_available_thinkers\<close> for one file name:
  \<open>generic_display_name\<close> is the expression assigned to \<open>thinker_name\<close>,
  \<open>display_name\<close> applies the two special cases to it.
\<close>

definition generic_display_name :: "pystr \<Rightarrow> pystr" where
  "generic_display_name file =
     title (replace (u ''_'') (u '' '') (replace (u ''_meaning'') [] (stem file)))"

definition display_name :: "pystr \<Rightarrow> pystr" where
  "display_name file =
     (let thinker_name = generic_display_name file
      in if thinker_name = jean_paul_lowercase_p then jean_paul_sartre
         else if thinker_name = soren_kierkegaard then soren_kierkegaard
         else thinker_name)"

text \<open>
  \<open>glob("*_meaning.txt")\<close> keeps the entries whose name ends in \<open>_meaning.txt\<close>.
  The directory is \<open>None\<close> when it does not exist, and otherwise the names of its
  entries in the order in which the operating system enumerates them.
\<close>

definition glob_meaning :: "pystr \<Rightarrow> bool" where
  "glob_meaning name = suffix (u ''_meaning.txt'') name"

definition get_available_thinkers :: "pystr list option \<Rightarrow> pystr list" where
  "get_available_thinkers thinkers_dir =
     (case thinkers_dir of
        None \<Rightarrow> sort []
      | Some entries \<Rightarrow> sort (map display_name (filter glob_meaning entries)))"

section \<open>The single-item scripts\<close>

text \<open>
  What a run of a single-item script reads and changes outside itself:
  \<^item> \<open>environ\<close>: the value of \<open>OPENAI_API_KEY\<close> in the process environment, if set;
  \<^item> \<open>files\<close>, \<open>dirs\<close>: the files (path to content) and the directories that exist;
  \<^item> \<open>mkdir_fails\<close>, \<open>open_fails\<close>: where the operating system refuses
    \<open>mkdir(exist_ok=True)\<close> and \<open>open(filepath, 'w')\<close>, which then raise;
  \<^item> \<open>now\<close>: \<open>datetime.now().strftime("%Y-%m-%d %H:%M:%S")\<close>;
  \<^item> \<open>respond\<close>: the external text-generation collaborator;
  \<^item> \<open>calls\<close>: the requests sent to the collaborator so far, oldest first.

  A path \<open>Path(d) / name\<close> is kept as the pair of the directory and the name joined
  to it.
\<close>

datatype path = Path_in pystr pystr

text \<open>
  A request holds what varies between two calls of
  \<open>client.chat.completions.create\<close>: the credential of the client, the model, and
  what the script puts into the prompt template (the thinker name; for a questionnaire
  also the essay text). The system message, \<open>max_tokens\<close> and
  \<open>temperature\<close> are fixed for each of the two kinds of request.
\<close>

datatype request =
    EssayRequest pystr pystr pystr
  | QuestionnaireRequest pystr pystr pystr pystr

text \<open>
  The statements inside \<open>try\<close> either raise (the call itself, or reading
  \<open>response.choices[0].message.content\<close>) or yield the content of the first choice.
\<close>

datatype completion = Raises pystr | Returns pystr

datatype error =
    ValueError
  | FileNotFoundError path
  | OSError

record world =
  environ :: "pystr option"
  files :: "path \<Rightarrow> pystr option"
  dirs :: "pystr set"
  mkdir_fails :: "pystr \<Rightarrow> bool"
  open_fails :: "path \<Rightarrow> bool"
  now :: pystr
  respond :: "request \<Rightarrow> completion"
  calls :: "request list"

text \<open>The parsed command line: \<open>thinker_name\<close>, \<open>--api-key\<close>, \<open>--model\<close>.\<close>

record args =
  thinker_name :: pystr
  api_key :: "pystr option"
  model :: pystr

text \<open>
  \<open>setup_openai_client\<close> is the same function in both scripts. The client is
  represented by the credential it is built with.
\<close>

definition setup_openai_client :: "pystr option \<Rightarrow> world \<Rightarrow> error + pystr" where
  "setup_openai_client api_key_arg w =
     (case api_key_arg of
        Some k \<Rightarrow>
          if k \<noteq> [] then Inr k
          else (case environ w of
                  Some e \<Rightarrow> if e \<noteq> [] then Inr e else Inl ValueError
                | None \<Rightarrow> Inl ValueError)
      | None \<Rightarrow>
          (case environ w of
             Some e \<Rightarrow> if e \<noteq> [] then Inr e else Inl ValueError
           | None \<Rightarrow> Inl ValueError))"

text \<open>
  One call of the collaborator inside \<open>try ... except Exception\<close>: the request is
  logged; an exception becomes \<open>None\<close>, a content is stripped of surrounding white
  space.
\<close>

definition create_completion :: "request \<Rightarrow> world \<Rightarrow> pystr option \<times> world" where
  "create_completion req w =
     (let w' = w\<lparr>calls := calls w @ [req]\<rparr>
      in case respond w req of
           Raises e \<Rightarrow> (None, w')
         | Returns content \<Rightarrow> (Some (strip content), w'))"

text \<open>
  \<open>setup_openai_client\<close> is called before the \<open>try\<close> block, so its
  \<open>ValueError\<close> leaves the function (\<open>Inl\<close>).
\<close>

definition generate_thinker_meaning_essay ::
    "pystr \<Rightarrow> pystr option \<Rightarrow> pystr \<Rightarrow> world \<Rightarrow> (error + pystr option) \<times> world" where
  "generate_thinker_meaning_essay name key mdl w =
     (case setup_openai_client key w of
        Inl e \<Rightarrow> (Inl e, w)
      | Inr client \<Rightarrow>
          (case create_completion (EssayRequest client mdl name) w of
             (essay, w') \<Rightarrow> (Inr essay, w')))"

definition generate_thinker_questionnaire ::
    "pystr \<Rightarrow> pystr \<Rightarrow> pystr option \<Rightarrow> pystr \<Rightarrow> world \<Rightarrow> (error + pystr option) \<times> world" where
  "generate_thinker_questionnaire name thinker_text key mdl w =
     (case setup_openai_client key w of
        Inl e \<Rightarrow> (Inl e, w)
      | Inr client \<Rightarrow>
          (case create_completion (QuestionnaireRequest client mdl name thinker_text) w of
             (questionnaire, w') \<Rightarrow> (Inr questionnaire, w')))"

definition thinkers_texts :: pystr where
  "thinkers_texts = u ''../thinkers_texts''"

definition generated_questionnaires :: pystr where
  "generated_questionnaires = u ''../generated_questionnaires''"

definition essay_header :: "pystr \<Rightarrow> pystr \<Rightarrow> pystr" where
  "essay_header timestamp name =
     u ''Generated on: '' @ timestamp @ [0x0A] @ u ''Thinker: '' @ name @ [0x0A]
       @ replicate 50 0x3D @ [0x0A, 0x0A]"

definition questionnaire_header :: "pystr \<Rightarrow> pystr \<Rightarrow> pystr" where
  "questionnaire_header timestamp name =
     u ''Generated on: '' @ timestamp @ [0x0A] @ u ''Thinker: '' @ name @ [0x0A]
       @ u ''Questionnaire Type: Meaning in Life'' @ [0x0A]
       @ replicate 50 0x3D @ [0x0A, 0x0A]"

text \<open>
  The body shared by \<open>save_thinker_essay\<close> and \<open>save_questionnaire\<close>: create the
  directory, then write header and text to the file, replacing what it held.
\<close>

definition save_to :: "pystr \<Rightarrow> pystr \<Rightarrow> pystr \<Rightarrow> world \<Rightarrow> (error + path) \<times> world" where
  "save_to dir filename content w =
     (if mkdir_fails w dir then (Inl OSError, w)
      else
        (let w1 = w\<lparr>dirs := insert dir (dirs w)\<rparr>;
             filepath = Path_in dir filename
         in if open_fails w1 filepath then (Inl OSError, w1)
            else (Inr filepath, w1\<lparr>files := (files w1)(filepath \<mapsto> content)\<rparr>)))"

definition save_thinker_essay :: "pystr \<Rightarrow> pystr \<Rightarrow> world \<Rightarrow> (error + path) \<times> world" where
  "save_thinker_essay name essay_text w =
     save_to thinkers_texts (essay_filename name) (essay_header (now w) name @ essay_text) w"

definition save_questionnaire :: "pystr \<Rightarrow> pystr \<Rightarrow> world \<Rightarrow> (error + path) \<times> world" where
  "save_questionnaire name questionnaire_text w =
     save_to generated_questionnaires (questionnaire_filename name)
       (questionnaire_header (now w) name @ questionnaire_text) w"

definition read_thinker_text :: "pystr \<Rightarrow> world \<Rightarrow> error + pystr" where
  "read_thinker_text name w =
     (let filepath = Path_in thinkers_texts (essay_filename name)
      in case files w filepath of
           None \<Rightarrow> Inl (FileNotFoundError filepath)
         | Some content \<Rightarrow> Inr content)"

text \<open>
  How \<open>main\<close> ends when no exception leaves it: the file was saved, the
  \<open>else\<close> branch printed that generation failed, or an \<open>except\<close> clause of
  \<open>main\<close> caught an exception and printed it. \<open>Inl\<close> is an exception that
  leaves \<open>main\<close>.
\<close>

datatype outcome = Saved path | Failed_to_generate | Reported error

text \<open>\<open>main\<close> of generate_thinker_meaning.py. It has no \<open>try\<close>.\<close>

definition main_generate_thinker_meaning :: "args \<Rightarrow> world \<Rightarrow> (error + outcome) \<times> world" where
  "main_generate_thinker_meaning a w =
     (case generate_thinker_meaning_essay (thinker_name a) (api_key a) (model a) w of
        (Inl e, w1) \<Rightarrow> (Inl e, w1)
      | (Inr essay, w1) \<Rightarrow>
          if truthy essay then
            (case save_thinker_essay (thinker_name a) (case essay of Some t \<Rightarrow> t | None \<Rightarrow> []) w1 of
               (Inl e, w2) \<Rightarrow> (Inl e, w2)
             | (Inr filepath, w2) \<Rightarrow> (Inr (Saved filepath), w2))
          else (Inr Failed_to_generate, w1))"

text \<open>
  \<open>main\<close> of generate_thinker_questionnaires.py. Its body is inside
  \<open>try ... except FileNotFoundError ... except Exception\<close>; both clauses print
  the exception and fall through to the end of \<open>main\<close>.
\<close>

definition main_generate_thinker_questionnaires :: "args \<Rightarrow> world \<Rightarrow> (error + outcome) \<times> world" where
  "main_generate_thinker_questionnaires a w =
     (case read_thinker_text (thinker_name a) w of
        Inl e \<Rightarrow> (Inr (Reported e), w)
      | Inr thinker_text \<Rightarrow>
          (case generate_thinker_questionnaire (thinker_name a) thinker_text (api_key a) (model a) w of
             (Inl e, w1) \<Rightarrow> (Inr (Reported e), w1)
           | (Inr questionnaire, w1) \<Rightarrow>
               if truthy questionnaire then
                 (case save_questionnaire (thinker_name a)
                         (case questionnaire of Some t \<Rightarrow> t | None \<Rightarrow> []) w1 of
                    (Inl e, w2) \<Rightarrow> (Inr (Reported e), w2)
                  | (Inr filepath, w2) \<Rightarrow> (Inr (Saved filepath), w2))
               else (Inr Failed_to_generate, w1)))"

text \<open>
  The exit status of the Python process: 1 when an exception leaves \<open>main\<close>, 0 when
  \<open>main\<close> returns. Neither script calls \<open>sys.exit\<close>.
\<close>

fun exit_code :: "error + outcome \<Rightarrow> int" where
  "exit_code (Inl e) = 1"
| "exit_code (Inr r) = 0"

fun succeeded :: "error + outcome \<Rightarrow> bool" where
  "succeeded (Inr (Saved p)) = True"
| "succeeded r = False"

section \<open>The batch orchestrators\<close>

text \<open>
  What a batch run does in order: it starts on an item (the line
  \<open>Processing i/N\<close> and the subprocess that follows it), or it sleeps for a number
  of seconds.
\<close>

datatype event = Processing pystr | Sleep nat

text \<open>
  \<open>subprocess.run\<close> belongs to the machine the batch runs on: given the command
  line and the state of the machine it raises or gives the return code of the child,
  and leaves the machine in a new state. \<open>executable\<close> is \<open>sys.executable\<close>.
\<close>

type_synonym 'w launcher = "pystr list \<Rightarrow> 'w \<Rightarrow> (error + int) \<times> 'w"

definition command :: "pystr \<Rightarrow> pystr \<Rightarrow> pystr \<Rightarrow> pystr option \<Rightarrow> pystr list" where
  "command executable script name key =
     [executable, script, name] @ (if truthy key then [u ''--api-key'', case key of Some k \<Rightarrow> k | None \<Rightarrow> []] else [])"

definition run_thinker_generation ::
    "pystr \<Rightarrow> 'w launcher \<Rightarrow> pystr \<Rightarrow> pystr option \<Rightarrow> 'w \<Rightarrow> bool \<times> 'w" where
  "run_thinker_generation executable subprocess_run name key w =
     (case subprocess_run (command executable (u ''generate_thinker_meaning.py'') name key) w of
        (Inl e, w') \<Rightarrow> (False, w')
      | (Inr returncode, w') \<Rightarrow> (returncode = 0, w'))"

definition run_questionnaire_generation ::
    "pystr \<Rightarrow> 'w launcher \<Rightarrow> pystr \<Rightarrow> pystr option \<Rightarrow> 'w \<Rightarrow> bool \<times> 'w" where
  "run_questionnaire_generation executable subprocess_run name key w =
     (case subprocess_run (command executable (u ''generate_thinker_questionnaires.py'') name key) w of
        (Inl e, w') \<Rightarrow> (False, w')
      | (Inr returncode, w') \<Rightarrow> (returncode = 0, w'))"

text \<open>The variables of the \<open>for\<close> loop of both \<open>main\<close> functions.\<close>

record 'w batch =
  successful :: nat
  failed :: nat
  events :: "event list"
  machine :: 'w

text \<open>
  One pass through the body of \<open>for i, thinker in enumerate(thinkers, 1)\<close>, where
  \<open>n\<close> is \<open>len(thinkers)\<close> and \<open>pause\<close> the argument of \<open>time.sleep\<close>.
\<close>

definition process_item ::
    "(pystr \<Rightarrow> 'w \<Rightarrow> bool \<times> 'w) \<Rightarrow> nat \<Rightarrow> nat \<Rightarrow> nat \<times> pystr \<Rightarrow> 'w batch \<Rightarrow> 'w batch" where
  "process_item run pause n item s =
     (case item of (i, thinker) \<Rightarrow>
        (case run thinker (machine s) of (ok, w') \<Rightarrow>
           (let s1 = s\<lparr>events := events s @ [Processing thinker], machine := w'\<rparr>;
                s2 = (if ok then s1\<lparr>successful := successful s1 + 1\<rparr>
                      else s1\<lparr>failed := failed s1 + 1\<rparr>)
            in if i < n then s2\<lparr>events := events s2 @ [Sleep pause]\<rparr> else s2)))"

fun batch_loop ::
    "(pystr \<Rightarrow> 'w \<Rightarrow> bool \<times> 'w) \<Rightarrow> nat \<Rightarrow> nat \<Rightarrow> (nat \<times> pystr) list \<Rightarrow> 'w batch \<Rightarrow> 'w batch" where
  "batch_loop run pause n [] s = s"
| "batch_loop run pause n (item # rest) s =
     batch_loop run pause n rest (process_item run pause n item s)"

text \<open>
  \<open>input(...).strip()\<close> followed by \<open>if not api_key: api_key = None\<close>;
  \<open>line\<close> is the line typed at the prompt.
\<close>

definition read_api_key :: "pystr \<Rightarrow> pystr option" where
  "read_api_key line = (let k = strip line in if k = [] then None else Some k)"

definition fixed_thinkers :: "pystr list" where
  "fixed_thinkers =
     [u ''Viktor Frankl'', u ''Albert Camus'', jean_paul_sartre,
      u ''Friedrich Nietzsche'', soren_kierkegaard]"

text \<open>
  \<open>main\<close> of batch_generate_thinkers.py, up to the end of the loop; what follows
  only prints the counters and the files found.
\<close>

definition main_batch_generate_thinkers ::
    "pystr \<Rightarrow> 'w launcher \<Rightarrow> pystr \<Rightarrow> 'w \<Rightarrow> 'w batch" where
  "main_batch_generate_thinkers executable subprocess_run line w =
     (let thinkers = fixed_thinkers;
          key = read_api_key line
      in batch_loop (\<lambda>thinker. run_thinker_generation executable subprocess_run thinker key)
           2 (length thinkers) (enumerate 1 thinkers)
           \<lparr>successful = 0, failed = 0, events = [], machine = w\<rparr>)"

text \<open>
  \<open>main\<close> of batch_generate_questionnaires.py, up to the end of the loop. It
  returns before the loop (\<open>None\<close>) when no thinker is available.
\<close>

definition main_batch_generate_questionnaires ::
    "pystr \<Rightarrow> 'w launcher \<Rightarrow> pystr list option \<Rightarrow> pystr \<Rightarrow> 'w \<Rightarrow> 'w batch option" where
  "main_batch_generate_questionnaires executable subprocess_run thinkers_dir line w =
     (let thinkers = get_available_thinkers thinkers_dir
      in if thinkers = [] then None
         else
           (let key = read_api_key line
            in Some (batch_loop
                 (\<lambda>thinker. run_questionnaire_generation executable subprocess_run thinker key)
                 3 (length thinkers) (enumerate 1 thinkers)
                 \<lparr>successful = 0, failed = 0, events = [], machine = w\<rparr>)))"

text \<open>The items a batch run started on, in order, and the pauses it made.\<close>

fun processed :: "event list \<Rightarrow> pystr list" where
  "processed [] = []"
| "processed (Processing thinker # es) = thinker # processed es"
| "processed (Sleep d # es) = processed es"

fun pauses :: "event list \<Rightarrow> nat list" where
  "pauses [] = []"
| "pauses (Processing thinker # es) = pauses es"
| "pauses (Sleep d # es) = d # pauses es"

text \<open>
  The schedule the specification describes: the items in order, with one pause of the
  fixed duration between two consecutive items and none after the last.
\<close>

fun paused_between :: "nat \<Rightarrow> pystr list \<Rightarrow> event list" where
  "paused_between d [] = []"
| "paused_between d [thinker] = [Processing thinker]"
| "paused_between d (thinker # rest) = Processing thinker # Sleep d # paused_between d rest"

section \<open>Example inputs\<close>

text \<open>
  A machine whose launcher gives return code 0 for Albert Camus and 1 for everyone
  else, and a directory with two essays and one other file.
\<close>

definition example_launcher :: "unit launcher" where
  "example_launcher cmd w = (if u ''Albert Camus'' \<in> set cmd then Inr 0 else Inr 1, w)"

definition example_dir :: "pystr list option" where
  "example_dir =
     Some [u ''viktor_frankl_meaning.txt'', u ''notes.txt'', u ''albert_camus_meaning.txt'']"

text \<open>
  A command line for Albert Camus with the default model, and a state outside the
  script in which the operating system refuses nothing and the collaborator gives the
  same answer to every request.
\<close>

definition example_args :: "pystr option \<Rightarrow> args" where
  "example_args key = \<lparr>thinker_name = u ''Albert Camus'', api_key = key, model = u ''gpt-4''\<rparr>"

definition example_world :: "pystr option \<Rightarrow> (path \<Rightarrow> pystr option) \<Rightarrow> completion \<Rightarrow> world" where
  "example_world key fs answer =
     \<lparr>environ = key, files = fs, dirs = {}, mkdir_fails = (\<lambda>d. False),
      open_fails = (\<lambda>p. False), now = u ''2024-05-01 12:00:00'',
      respond = (\<lambda>req. answer), calls = []\<rparr>"

definition camus_essay_path :: path where
  "camus_essay_path = Path_in (u ''../thinkers_texts'') (u ''albert_camus_meaning.txt'')"

section \<open>Evaluation\<close>

lemmas str_eval = u_def lower_def replace_def to_lower_def stem_def rfind_def title_def
  to_title_full_def is_cased_def strip_def is_space_def

lemmas naming_eval = slug_def essay_filename_def questionnaire_filename_def
  generic_display_name_def display_name_def glob_meaning_def jean_paul_sartre_def
  soren_kierkegaard_def jean_paul_lowercase_p_def get_available_thinkers_def

lemma example_dir_thinkers:
  "get_available_thinkers example_dir = [u ''Albert Camus'', u ''Viktor Frankl'']"
  by (simp add: example_dir_def naming_eval str_eval suffix_to_prefix)

lemma example_batch_run:
  "main_batch_generate_questionnaires (u ''python3'') example_launcher example_dir (u '' '') ()
     = Some \<lparr>successful = 1, failed = 1,
         events = [Processing (u ''Albert Camus''), Sleep 3, Processing (u ''Viktor Frankl'')],
         machine = ()\<rparr>"
  apply (simp add: main_batch_generate_questionnaires_def example_dir_thinkers Let_def)
  apply (simp add: u_def enumerate_eq_zip process_item_def run_questionnaire_generation_def
      example_launcher_def command_def read_api_key_def strip_def is_space_def upt_rec)
  done

lemma camus_path: "Path_in thinkers_texts (essay_filename (u ''Albert Camus'')) = camus_essay_path"
  by (simp add: camus_essay_path_def thinkers_texts_def naming_eval str_eval)

lemma camus_qpath: "questionnaire_filename (u ''Albert Camus'') = u ''albert_camus_questionnaire.txt''"
  by (simp add: naming_eval str_eval)

lemmas run_eval = main_generate_thinker_meaning_def main_generate_thinker_questionnaires_def
  generate_thinker_meaning_essay_def generate_thinker_questionnaire_def
  setup_openai_client_def create_completion_def save_thinker_essay_def save_questionnaire_def
  save_to_def read_thinker_text_def example_args_def example_world_def Let_def

section \<open>The batch loop\<close>

lemma process_item_tally:
  "successful (process_item run pause n item s) + failed (process_item run pause n item s)
     = successful s + failed s + 1"
  by (simp add: process_item_def Let_def split: prod.splits)

lemma process_item_one_counter:
  "(successful (process_item run pause n item s) = successful s + 1
      \<and> failed (process_item run pause n item s) = failed s)
   \<or> (successful (process_item run pause n item s) = successful s
      \<and> failed (process_item run pause n item s) = failed s + 1)"
  by (simp add: process_item_def Let_def split: prod.splits)

lemma processed_append: "processed (es @ fs) = processed es @ processed fs"
  by (induction es rule: processed.induct) simp_all

lemma pauses_append: "pauses (es @ fs) = pauses es @ pauses fs"
  by (induction es rule: pauses.induct) simp_all

lemma process_item_events:
  "events (process_item run pause n (i, thinker) s)
     = events s @ Processing thinker # (if i < n then [Sleep pause] else [])"
  by (simp add: process_item_def Let_def split: prod.splits)

lemma batch_loop_tally:
  "successful (batch_loop run pause n items s) + failed (batch_loop run pause n items s)
     = successful s + failed s + length items"
  by (induction items arbitrary: s) (simp_all add: process_item_tally)

lemma batch_loop_processed:
  "processed (events (batch_loop run pause n items s)) = processed (events s) @ map snd items"
proof (induction items arbitrary: s)
  case Nil
  show ?case by simp
next
  case (Cons item rest)
  obtain i thinker where item: "item = (i, thinker)" by (cases item)
  show ?case
    by (simp add: Cons.IH item process_item_events processed_append)
qed

lemma batch_loop_events:
  "k + length thinkers = Suc n \<Longrightarrow>
   events (batch_loop run pause n (enumerate k thinkers) s)
     = events s @ paused_between pause thinkers"
proof (induction thinkers arbitrary: k s)
  case Nil
  show ?case by simp
next
  case (Cons thinker rest)
  show ?case
  proof (cases rest)
    case Nil
    with Cons.prems show ?thesis by (simp add: process_item_events)
  next
    case (Cons t ts)
    with Cons.prems have "k < n" by simp
    moreover have "Suc k + length rest = Suc n" using Cons.prems by simp
    ultimately show ?thesis
      using Cons.IH [of "Suc k"] Cons by (simp add: process_item_events)
  qed
qed

lemma processed_paused_between: "processed (paused_between d thinkers) = thinkers"
  by (induction d thinkers rule: paused_between.induct) simp_all

lemma pauses_paused_between:
  "pauses (paused_between d thinkers) = replicate (length thinkers - 1) d"
  by (induction d thinkers rule: paused_between.induct) simp_all

lemma paused_between_eq_Nil: "paused_between d thinkers = [] \<longleftrightarrow> thinkers = []"
  by (induction d thinkers rule: paused_between.induct) simp_all

lemma last_paused_between:
  "thinkers \<noteq> [] \<Longrightarrow> last (paused_between d thinkers) = Processing (last thinkers)"
  by (induction d thinkers rule: paused_between.induct) (simp_all add: paused_between_eq_Nil)

lemma map_snd_enumerate: "map snd (enumerate k xs) = xs"
  by (simp add: enumerate_eq_zip)

lemma thinkers_loop:
  "main_batch_generate_thinkers exe sub line w =
     batch_loop (\<lambda>thinker. run_thinker_generation exe sub thinker (read_api_key line))
       2 (length fixed_thinkers) (enumerate 1 fixed_thinkers)
       \<lparr>successful = 0, failed = 0, events = [], machine = w\<rparr>"
  by (simp add: main_batch_generate_thinkers_def Let_def)

lemma questionnaires_loop:
  "main_batch_generate_questionnaires exe sub dir line w = Some s \<Longrightarrow>
   s = batch_loop (\<lambda>thinker. run_questionnaire_generation exe sub thinker (read_api_key line))
       3 (length (get_available_thinkers dir)) (enumerate 1 (get_available_thinkers dir))
       \<lparr>successful = 0, failed = 0, events = [], machine = w\<rparr>"
  by (simp add: main_batch_generate_questionnaires_def Let_def split: if_splits)

section \<open>The single-item scripts: auxiliary facts\<close>

lemma setup_openai_client_ValueError:
  "setup_openai_client key w = Inl e \<longleftrightarrow> e = ValueError \<and> \<not> truthy key \<and> \<not> truthy (environ w)"
  by (cases key; cases "environ w") (auto simp: setup_openai_client_def)

lemma setup_openai_client_cases:
  "setup_openai_client key w = Inl ValueError \<or> (\<exists>client. setup_openai_client key w = Inr client)"
  by (cases "setup_openai_client key w") (auto simp: setup_openai_client_ValueError)

lemma setup_openai_client_Inr:
  "setup_openai_client key w = Inr client \<Longrightarrow> truthy key \<or> truthy (environ w)"
  using setup_openai_client_ValueError [of key w ValueError] by auto

lemma setup_openai_client_Inl:
  "setup_openai_client key w = Inl e \<Longrightarrow> e = ValueError \<and> \<not> truthy key \<and> \<not> truthy (environ w)"
  by (simp add: setup_openai_client_ValueError)

lemma create_completion_eq:
  "create_completion req w =
     (case respond w req of Raises e \<Rightarrow> None | Returns content \<Rightarrow> Some (strip content),
      w\<lparr>calls := calls w @ [req]\<rparr>)"
  by (simp add: create_completion_def Let_def split: completion.splits)

lemma create_completion_effects:
  "calls (snd (create_completion req w)) = calls w @ [req]"
  "files (snd (create_completion req w)) = files w"
  "dirs (snd (create_completion req w)) = dirs w"
  "now (snd (create_completion req w)) = now w"
  "mkdir_fails (snd (create_completion req w)) = mkdir_fails w"
  "open_fails (snd (create_completion req w)) = open_fails w"
  by (simp_all add: create_completion_def Let_def split: completion.splits)

lemma create_completion_value:
  "fst (create_completion req w)
     = (case respond w req of Raises e \<Rightarrow> None | Returns content \<Rightarrow> Some (strip content))"
  by (simp add: create_completion_def Let_def split: completion.splits)

lemma save_to_Inr:
  "fst (save_to dir filename content w) = Inr p \<Longrightarrow>
     p = Path_in dir filename
     \<and> files (snd (save_to dir filename content w)) = (files w)(Path_in dir filename \<mapsto> content)
     \<and> dirs (snd (save_to dir filename content w)) = insert dir (dirs w)
     \<and> calls (snd (save_to dir filename content w)) = calls w"
  by (auto simp: save_to_def Let_def split: if_splits)

lemma save_to_succeeds:
  "\<not> mkdir_fails w dir \<Longrightarrow> \<not> open_fails w (Path_in dir filename) \<Longrightarrow>
     fst (save_to dir filename content w) = Inr (Path_in dir filename)"
  by (simp add: save_to_def Let_def)

lemma strip_unchanged:
  "content \<noteq> [] \<Longrightarrow> \<not> is_space (hd content) \<Longrightarrow> \<not> is_space (last content) \<Longrightarrow>
     strip content = content"
proof -
  assume ne: "content \<noteq> []" and h: "\<not> is_space (hd content)" and l: "\<not> is_space (last content)"
  from ne h have a: "dropWhile is_space content = content"
    by (cases content) simp_all
  from ne l have b: "dropWhile is_space (rev content) = rev content"
    by (cases "rev content") (simp_all add: last_rev [symmetric] hd_rev)
  show ?thesis by (simp add: strip_def a b)
qed

lemma questionnaires_main_never_raises:
  "fst (main_generate_thinker_questionnaires a w) \<noteq> Inl e"
  by (simp add: main_generate_thinker_questionnaires_def split: sum.splits prod.splits)

text \<open>
  Once the credential is found (and, for a questionnaire, the essay is read), a run is
  decided by what the collaborator answers and by whether the file can be written.
\<close>

lemma meaning_main_unfold:
  assumes "setup_openai_client (api_key a) w = Inr client"
  shows "main_generate_thinker_meaning a w =
     (let r = create_completion (EssayRequest client (model a) (thinker_name a)) w
      in case fst r of
           None \<Rightarrow> (Inr Failed_to_generate, snd r)
         | Some t \<Rightarrow>
             if t = [] then (Inr Failed_to_generate, snd r)
             else (case save_to thinkers_texts (essay_filename (thinker_name a))
                          (essay_header (now w) (thinker_name a) @ t) (snd r) of
                     (Inl e, w2) \<Rightarrow> (Inl e, w2)
                   | (Inr filepath, w2) \<Rightarrow> (Inr (Saved filepath), w2)))"
  using assms
  by (simp add: main_generate_thinker_meaning_def generate_thinker_meaning_essay_def
      save_thinker_essay_def create_completion_eq Let_def
      split: completion.splits)

lemma questionnaires_main_unfold:
  assumes "read_thinker_text (thinker_name a) w = Inr thinker_text"
    and "setup_openai_client (api_key a) w = Inr client"
  shows "main_generate_thinker_questionnaires a w =
     (let r = create_completion
                (QuestionnaireRequest client (model a) (thinker_name a) thinker_text) w
      in case fst r of
           None \<Rightarrow> (Inr Failed_to_generate, snd r)
         | Some t \<Rightarrow>
             if t = [] then (Inr Failed_to_generate, snd r)
             else (case save_to generated_questionnaires (questionnaire_filename (thinker_name a))
                          (questionnaire_header (now w) (thinker_name a) @ t) (snd r) of
                     (Inl e, w2) \<Rightarrow> (Inr (Reported e), w2)
                   | (Inr filepath, w2) \<Rightarrow> (Inr (Saved filepath), w2)))"
  using assms
  by (simp add: main_generate_thinker_questionnaires_def generate_thinker_questionnaire_def
      save_questionnaire_def create_completion_eq Let_def
      split: completion.splits)

lemma meaning_main_succeeded:
  assumes "succeeded (fst (main_generate_thinker_meaning a w))"
  shows "\<exists>client content.
           setup_openai_client (api_key a) w = Inr client
           \<and> respond w (EssayRequest client (model a) (thinker_name a)) = Returns content
           \<and> strip content \<noteq> []
           \<and> fst (main_generate_thinker_meaning a w)
               = Inr (Saved (Path_in thinkers_texts (essay_filename (thinker_name a))))
           \<and> files (snd (main_generate_thinker_meaning a w))
               = (files w)(Path_in thinkers_texts (essay_filename (thinker_name a))
                    \<mapsto> essay_header (now w) (thinker_name a) @ strip content)"
proof (cases "setup_openai_client (api_key a) w")
  case (Inl e)
  with assms show ?thesis
    by (simp add: main_generate_thinker_meaning_def generate_thinker_meaning_essay_def)
next
  case (Inr client)
  let ?req = "EssayRequest client (model a) (thinker_name a)"
  let ?r = "create_completion ?req w"
  show ?thesis
  proof (cases "respond w ?req")
    case (Raises e)
    with assms Inr show ?thesis
      by (simp add: meaning_main_unfold [OF Inr] create_completion_value Let_def)
  next
    case (Returns content)
    have v: "fst ?r = Some (strip content)"
      by (simp add: create_completion_value Returns)
    show ?thesis
    proof (cases "strip content = []")
      case True
      with assms v show ?thesis
        by (simp add: meaning_main_unfold [OF Inr] Let_def)
    next
      case False
      let ?s = "save_to thinkers_texts (essay_filename (thinker_name a))
                  (essay_header (now w) (thinker_name a) @ strip content) (snd ?r)"
      have m: "main_generate_thinker_meaning a w =
          (case ?s of (Inl e, w2) \<Rightarrow> (Inl e, w2) | (Inr filepath, w2) \<Rightarrow> (Inr (Saved filepath), w2))"
        using False v by (simp add: meaning_main_unfold [OF Inr] Let_def)
      from assms m obtain p where p: "fst ?s = Inr p"
        by (cases ?s; cases "fst ?s") auto
      from save_to_Inr [OF p] p m Inr Returns False show ?thesis
        by (cases ?s) (auto simp: create_completion_effects)
    qed
  qed
qed

lemma questionnaires_main_succeeded:
  assumes "succeeded (fst (main_generate_thinker_questionnaires a w))"
  shows "\<exists>thinker_text client content.
           read_thinker_text (thinker_name a) w = Inr thinker_text
           \<and> setup_openai_client (api_key a) w = Inr client
           \<and> respond w (QuestionnaireRequest client (model a) (thinker_name a) thinker_text)
               = Returns content
           \<and> strip content \<noteq> []
           \<and> fst (main_generate_thinker_questionnaires a w)
               = Inr (Saved (Path_in generated_questionnaires
                                (questionnaire_filename (thinker_name a))))
           \<and> files (snd (main_generate_thinker_questionnaires a w))
               = (files w)(Path_in generated_questionnaires (questionnaire_filename (thinker_name a))
                    \<mapsto> questionnaire_header (now w) (thinker_name a) @ strip content)"
proof (cases "read_thinker_text (thinker_name a) w")
  case (Inl e)
  with assms show ?thesis
    by (simp add: main_generate_thinker_questionnaires_def)
next
  case essay: (Inr thinker_text)
  show ?thesis
  proof (cases "setup_openai_client (api_key a) w")
    case (Inl e)
    with assms essay show ?thesis
      by (simp add: main_generate_thinker_questionnaires_def generate_thinker_questionnaire_def)
  next
    case (Inr client)
    let ?req = "QuestionnaireRequest client (model a) (thinker_name a) thinker_text"
    let ?r = "create_completion ?req w"
    note main_eq = questionnaires_main_unfold [OF essay Inr]
    show ?thesis
    proof (cases "respond w ?req")
      case (Raises e)
      with assms show ?thesis
        by (simp add: main_eq create_completion_value Let_def)
    next
      case (Returns content)
      have v: "fst ?r = Some (strip content)"
        by (simp add: create_completion_value Returns)
      show ?thesis
      proof (cases "strip content = []")
        case True
        with assms v show ?thesis
          by (simp add: main_eq Let_def)
      next
        case False
        let ?s = "save_to generated_questionnaires (questionnaire_filename (thinker_name a))
                    (questionnaire_header (now w) (thinker_name a) @ strip content) (snd ?r)"
        have m: "main_generate_thinker_questionnaires a w =
            (case ?s of (Inl e, w2) \<Rightarrow> (Inr (Reported e), w2)
                      | (Inr filepath, w2) \<Rightarrow> (Inr (Saved filepath), w2))"
          using False v by (simp add: main_eq Let_def)
        from assms m obtain p where p: "fst ?s = Inr p"
          by (cases ?s; cases "fst ?s") auto
        from save_to_Inr [OF p] p m essay Inr Returns False show ?thesis
          by (cases ?s) (auto simp: create_completion_effects)
      qed
    qed
  qed
qed

section \<open>Claims\<close>

text \<open>
  C1. The exit status of a single-item script does not tell whether the run succeeded.
  When the collaborator raises, generate_thinker_meaning.py prints that it failed to
  generate the essay, returns from \<open>main\<close> and exits with status 0.
  generate_thinker_questionnaires.py catches every exception inside \<open>main\<close>, so it
  exits with status 0 on every run; one such run has neither the essay file nor a
  credential.
\<close>

theorem failed_run_exits_with_code_zero:
  "main_generate_thinker_meaning (example_args (Some (u ''sk-test'')))
       (example_world None Map.empty (Raises (u ''connection error'')))
     = (Inr Failed_to_generate,
        (example_world None Map.empty (Raises (u ''connection error'')))
          \<lparr>calls := [EssayRequest (u ''sk-test'') (u ''gpt-4'') (u ''Albert Camus'')]\<rparr>)
   \<and> exit_code (fst (main_generate_thinker_meaning (example_args (Some (u ''sk-test'')))
       (example_world None Map.empty (Raises (u ''connection error''))))) = 0
   \<and> \<not> succeeded (fst (main_generate_thinker_meaning (example_args (Some (u ''sk-test'')))
       (example_world None Map.empty (Raises (u ''connection error'')))))
   \<and> exit_code (fst (main_generate_thinker_questionnaires (example_args None)
       (example_world None Map.empty (Returns (u ''Q1''))))) = 0
   \<and> \<not> succeeded (fst (main_generate_thinker_questionnaires (example_args None)
       (example_world None Map.empty (Returns (u ''Q1'')))))
   \<and> exit_code (fst (main_generate_thinker_questionnaires a w)) = 0"
proof -
  have "\<exists>r. fst (main_generate_thinker_questionnaires a w) = Inr r"
    using questionnaires_main_never_raises [of a w]
    by (cases "fst (main_generate_thinker_questionnaires a w)") auto
  then have "exit_code (fst (main_generate_thinker_questionnaires a w)) = 0"
    by auto
  then show ?thesis
    by (simp add: run_eval u_def)
qed

text \<open>
  C2. When the essay file of the thinker, \<open>../thinkers_texts/<slug>_meaning.txt\<close>,
  does not exist, a questionnaire run fails: \<open>main\<close> reports the
  \<open>FileNotFoundError\<close> for that path and saves nothing. The collaborator is not
  called during the run (the log of requests is as before); indeed nothing outside the
  script has changed.
\<close>

theorem missing_essay_fails_without_call:
  assumes "files w (Path_in thinkers_texts (essay_filename (thinker_name a))) = None"
  shows "main_generate_thinker_questionnaires a w
           = (Inr (Reported (FileNotFoundError
                 (Path_in thinkers_texts (essay_filename (thinker_name a))))), w)
         \<and> \<not> succeeded (fst (main_generate_thinker_questionnaires a w))
         \<and> calls (snd (main_generate_thinker_questionnaires a w)) = calls w
         \<and> files (snd (main_generate_thinker_questionnaires a w)) = files w"
  using assms
  by (simp add: main_generate_thinker_questionnaires_def read_thinker_text_def)

theorem missing_essay_fails_without_call_witness:
  "files (example_world (Some (u ''sk-test'')) Map.empty (Returns (u ''Q1'')))
       (Path_in thinkers_texts (essay_filename (thinker_name (example_args None)))) = None
   \<and> main_generate_thinker_questionnaires (example_args None)
         (example_world (Some (u ''sk-test'')) Map.empty (Returns (u ''Q1'')))
       = (Inr (Reported (FileNotFoundError camus_essay_path)),
          example_world (Some (u ''sk-test'')) Map.empty (Returns (u ''Q1'')))
   \<and> calls (snd (main_generate_thinker_questionnaires (example_args None)
         (example_world (Some (u ''sk-test'')) Map.empty (Returns (u ''Q1''))))) = []"
proof -
  have h: "files (example_world (Some (u ''sk-test'')) Map.empty (Returns (u ''Q1'')))
       (Path_in thinkers_texts (essay_filename (thinker_name (example_args None)))) = None"
    by (simp add: example_world_def)
  have n: "thinker_name (example_args None) = u ''Albert Camus''"
    by (simp add: example_args_def)
  have c: "calls (example_world (Some (u ''sk-test'')) Map.empty (Returns (u ''Q1''))) = []"
    by (simp add: example_world_def)
  show ?thesis
    using h missing_essay_fails_without_call [OF h] by (simp add: n camus_path c)
qed

text \<open>
  C3. A batch orchestrator processes every item of its work list exactly once and in
  order, whatever the subprocess of an item returns or raises: the items it started on
  are the work list itself. Each pass through the loop body adds one to exactly one of
  \<open>successful\<close> and \<open>failed\<close>, and after the loop their sum is the length of the
  list. This holds for the fixed list of batch_generate_thinkers.py, for the scanned
  list of batch_generate_questionnaires.py when it reaches its loop, and for the loop
  on any list from any starting counters.
\<close>

theorem batch_counts_every_item_once:
  "successful (main_batch_generate_thinkers exe sub line w)
     + failed (main_batch_generate_thinkers exe sub line w) = length fixed_thinkers
   \<and> processed (events (main_batch_generate_thinkers exe sub line w)) = fixed_thinkers
   \<and> (\<forall>s. main_batch_generate_questionnaires exe' sub' dir line' w' = Some s \<longrightarrow>
          successful s + failed s = length (get_available_thinkers dir)
          \<and> processed (events s) = get_available_thinkers dir)
   \<and> successful (batch_loop run pause (length thinkers) (enumerate 1 thinkers) s0)
        + failed (batch_loop run pause (length thinkers) (enumerate 1 thinkers) s0)
      = successful s0 + failed s0 + length thinkers
   \<and> processed (events (batch_loop run pause (length thinkers) (enumerate 1 thinkers) s0))
      = processed (events s0) @ thinkers
   \<and> ((successful (process_item run pause n item s1) = successful s1 + 1
          \<and> failed (process_item run pause n item s1) = failed s1)
        \<or> (successful (process_item run pause n item s1) = successful s1
          \<and> failed (process_item run pause n item s1) = failed s1 + 1))"
proof -
  have a: "successful (main_batch_generate_thinkers exe sub line w)
     + failed (main_batch_generate_thinkers exe sub line w) = length fixed_thinkers"
    by (simp add: thinkers_loop batch_loop_tally)
  have b: "processed (events (main_batch_generate_thinkers exe sub line w)) = fixed_thinkers"
    by (simp add: thinkers_loop batch_loop_processed map_snd_enumerate)
  have c: "successful s + failed s = length (get_available_thinkers dir)
          \<and> processed (events s) = get_available_thinkers dir"
    if "main_batch_generate_questionnaires exe' sub' dir line' w' = Some s" for s
    using questionnaires_loop [OF that]
    by (simp add: batch_loop_tally batch_loop_processed map_snd_enumerate)
  have d: "successful (batch_loop run pause (length thinkers) (enumerate 1 thinkers) s0)
        + failed (batch_loop run pause (length thinkers) (enumerate 1 thinkers) s0)
      = successful s0 + failed s0 + length thinkers"
    by (simp add: batch_loop_tally)
  have e: "processed (events (batch_loop run pause (length thinkers) (enumerate 1 thinkers) s0))
      = processed (events s0) @ thinkers"
    by (simp add: batch_loop_processed map_snd_enumerate)
  show ?thesis
    using a b c d e process_item_one_counter [of run pause n item s1]
    by blast
qed

theorem batch_counts_every_item_once_witness:
  "main_batch_generate_questionnaires (u ''python3'') example_launcher example_dir (u '' '') ()
     = Some \<lparr>successful = 1, failed = 1,
         events = [Processing (u ''Albert Camus''), Sleep 3, Processing (u ''Viktor Frankl'')],
         machine = ()\<rparr>
   \<and> (1::nat) + 1 = length (get_available_thinkers example_dir)
   \<and> processed [Processing (u ''Albert Camus''), Sleep 3, Processing (u ''Viktor Frankl'')]
       = get_available_thinkers example_dir"
proof -
  let ?s = "\<lparr>successful = 1, failed = 1,
         events = [Processing (u ''Albert Camus''), Sleep 3, Processing (u ''Viktor Frankl'')],
         machine = ()\<rparr>"
  have run: "main_batch_generate_questionnaires (u ''python3'') example_launcher example_dir (u '' '') ()
     = Some ?s"
    by (rule example_batch_run)
  have "\<forall>s. main_batch_generate_questionnaires (u ''python3'') example_launcher example_dir (u '' '') () = Some s \<longrightarrow>
          successful s + failed s = length (get_available_thinkers example_dir)
          \<and> processed (events s) = get_available_thinkers example_dir"
    using batch_counts_every_item_once
      [of "u ''python3''" example_launcher "u '' ''" "()" "u ''python3''" example_launcher example_dir "u '' ''" "()"]
    by blast
  with run show ?thesis by auto
qed

text \<open>
  C4, as stated, has the name of Kierkegaard recovered through the override table and
  not through generic title-casing. Title-casing the stem of the file already gives the
  name: \<open>str.title\<close> capitalises the first letter of each word and leaves
  U+00F8, which is lower case, as it is.
\<close>

theorem soren_recovered_by_title_casing_alone:
  "essay_filename soren_kierkegaard = u ''s'' @ [0xF8] @ u ''ren_kierkegaard_meaning.txt''
   \<and> generic_display_name (u ''s'' @ [0xF8] @ u ''ren_kierkegaard_meaning.txt'') = soren_kierkegaard"
  by (simp add: naming_eval str_eval)

text \<open>
  C4, amended. For both display names of the override table the round trip reproduces
  the name exactly: name, slug (spaces to underscores, lower case), file name
  \<open><slug>_meaning.txt\<close>, and back through \<open>get_available_thinkers\<close>. Generic
  title-casing alone yields both names. For Jean-Paul Sartre \<open>str.title\<close> capitalises
  the letter after the hyphen, so the result differs from the name the first special
  case compares with; for Kierkegaard the second special case assigns the very name
  it has found.
\<close>

theorem override_names_round_trip:
  "slug jean_paul_sartre = u ''jean-paul_sartre''
   \<and> essay_filename jean_paul_sartre = u ''jean-paul_sartre_meaning.txt''
   \<and> display_name (essay_filename jean_paul_sartre) = jean_paul_sartre
   \<and> get_available_thinkers (Some [essay_filename jean_paul_sartre]) = [jean_paul_sartre]
   \<and> slug soren_kierkegaard = u ''s'' @ [0xF8] @ u ''ren_kierkegaard''
   \<and> essay_filename soren_kierkegaard = u ''s'' @ [0xF8] @ u ''ren_kierkegaard_meaning.txt''
   \<and> display_name (essay_filename soren_kierkegaard) = soren_kierkegaard
   \<and> get_available_thinkers (Some [essay_filename soren_kierkegaard]) = [soren_kierkegaard]
   \<and> generic_display_name (essay_filename jean_paul_sartre) = jean_paul_sartre
   \<and> generic_display_name (essay_filename jean_paul_sartre) \<noteq> jean_paul_lowercase_p
   \<and> generic_display_name (essay_filename soren_kierkegaard) = soren_kierkegaard"
proof -
  have names: "slug jean_paul_sartre = u ''jean-paul_sartre''"
      "essay_filename jean_paul_sartre = u ''jean-paul_sartre_meaning.txt''"
      "slug soren_kierkegaard = u ''s'' @ [0xF8] @ u ''ren_kierkegaard''"
      "essay_filename soren_kierkegaard = u ''s'' @ [0xF8] @ u ''ren_kierkegaard_meaning.txt''"
    by (simp_all add: naming_eval str_eval)
  have generic: "generic_display_name (essay_filename jean_paul_sartre) = jean_paul_sartre"
      "generic_display_name (essay_filename soren_kierkegaard) = soren_kierkegaard"
    by (simp_all add: naming_eval str_eval)
  have ne: "jean_paul_sartre \<noteq> jean_paul_lowercase_p"
      "soren_kierkegaard \<noteq> jean_paul_lowercase_p"
    by (simp_all add: jean_paul_sartre_def soren_kierkegaard_def jean_paul_lowercase_p_def u_def)
  have display: "display_name (essay_filename jean_paul_sartre) = jean_paul_sartre"
      "display_name (essay_filename soren_kierkegaard) = soren_kierkegaard"
    by (simp_all add: display_name_def generic ne)
  have glob: "glob_meaning (essay_filename jean_paul_sartre)"
      "glob_meaning (essay_filename soren_kierkegaard)"
    by (auto simp: glob_meaning_def essay_filename_def suffix_def)
  have scan: "get_available_thinkers (Some [essay_filename jean_paul_sartre]) = [jean_paul_sartre]"
      "get_available_thinkers (Some [essay_filename soren_kierkegaard]) = [soren_kierkegaard]"
    by (simp_all add: get_available_thinkers_def glob display)
  show ?thesis
    using names generic ne display scan by simp
qed

text \<open>
  C5, as stated, has every single-item run without a credential raise the
  missing-credential error. A questionnaire run looks for the essay file first: with
  neither credential nor essay file it reports the \<open>FileNotFoundError\<close> and never
  looks for the credential.
\<close>

theorem missing_credential_not_raised_counterexample:
  "\<not> truthy (api_key (example_args None))
   \<and> \<not> truthy (environ (example_world None Map.empty (Returns (u ''Q1''))))
   \<and> main_generate_thinker_questionnaires (example_args None)
         (example_world None Map.empty (Returns (u ''Q1'')))
       = (Inr (Reported (FileNotFoundError camus_essay_path)),
          example_world None Map.empty (Returns (u ''Q1'')))
   \<and> fst (main_generate_thinker_questionnaires (example_args None)
         (example_world None Map.empty (Returns (u ''Q1'')))) \<noteq> Inr (Reported ValueError)
   \<and> fst (main_generate_thinker_questionnaires (example_args None)
         (example_world None Map.empty (Returns (u ''Q1'')))) \<noteq> Inl ValueError"
proof -
  have h: "files (example_world None Map.empty (Returns (u ''Q1'')))
       (Path_in thinkers_texts (essay_filename (thinker_name (example_args None)))) = None"
    by (simp add: example_world_def)
  have n: "thinker_name (example_args None) = u ''Albert Camus''"
    by (simp add: example_args_def)
  have run: "main_generate_thinker_questionnaires (example_args None)
         (example_world None Map.empty (Returns (u ''Q1'')))
       = (Inr (Reported (FileNotFoundError camus_essay_path)),
          example_world None Map.empty (Returns (u ''Q1'')))"
    using h by (simp add: main_generate_thinker_questionnaires_def read_thinker_text_def n camus_path)
  show ?thesis
    by (simp add: run) (simp add: example_args_def example_world_def)
qed

text \<open>
  C5, amended. \<open>setup_openai_client\<close> raises the missing-credential error exactly
  when the credential is absent or empty both as argument and in \<open>OPENAI_API_KEY\<close>.
  A run of the meaning script ends with that error exactly then. A run of the
  questionnaire script ends with it exactly when, moreover, the essay file exists, and
  there \<open>main\<close> catches and prints it: no exception leaves \<open>main\<close> of the
  questionnaire script. In both scripts the run stops there, with nothing outside the
  script changed.
\<close>

theorem missing_credential_raised_iff_absent:
  "(setup_openai_client (api_key a) w = Inl ValueError
      \<longleftrightarrow> \<not> truthy (api_key a) \<and> \<not> truthy (environ w))
   \<and> ((fst (main_generate_thinker_meaning a w) = Inl ValueError
        \<or> fst (main_generate_thinker_meaning a w) = Inr (Reported ValueError))
      \<longleftrightarrow> \<not> truthy (api_key a) \<and> \<not> truthy (environ w))
   \<and> (fst (main_generate_thinker_questionnaires a w) = Inr (Reported ValueError)
      \<longleftrightarrow> \<not> truthy (api_key a) \<and> \<not> truthy (environ w)
          \<and> files w (Path_in thinkers_texts (essay_filename (thinker_name a))) \<noteq> None)
   \<and> fst (main_generate_thinker_questionnaires a w) \<noteq> Inl e
   \<and> (\<not> truthy (api_key a) \<and> \<not> truthy (environ w)
        \<longrightarrow> snd (main_generate_thinker_meaning a w) = w
          \<and> snd (main_generate_thinker_questionnaires a w) = w)"
proof -
  have a: "setup_openai_client (api_key a) w = Inl ValueError
      \<longleftrightarrow> \<not> truthy (api_key a) \<and> \<not> truthy (environ w)"
    by (simp add: setup_openai_client_ValueError)
  have b: "(fst (main_generate_thinker_meaning a w) = Inl ValueError
        \<or> fst (main_generate_thinker_meaning a w) = Inr (Reported ValueError))
      \<longleftrightarrow> \<not> truthy (api_key a) \<and> \<not> truthy (environ w)"
  proof (cases "setup_openai_client (api_key a) w")
    case (Inl err)
    with setup_openai_client_Inl [OF Inl] show ?thesis
      by (simp add: main_generate_thinker_meaning_def generate_thinker_meaning_essay_def)
  next
    case (Inr client)
    with setup_openai_client_Inr [OF Inr] show ?thesis
      by (auto simp: main_generate_thinker_meaning_def generate_thinker_meaning_essay_def
          save_thinker_essay_def save_to_def Let_def split: prod.splits if_splits)
  qed
  have c: "fst (main_generate_thinker_questionnaires a w) = Inr (Reported ValueError)
      \<longleftrightarrow> \<not> truthy (api_key a) \<and> \<not> truthy (environ w)
          \<and> files w (Path_in thinkers_texts (essay_filename (thinker_name a))) \<noteq> None"
  proof (cases "files w (Path_in thinkers_texts (essay_filename (thinker_name a)))")
    case None
    then show ?thesis
      by (simp add: main_generate_thinker_questionnaires_def read_thinker_text_def)
  next
    case (Some thinker_text)
    show ?thesis
    proof (cases "setup_openai_client (api_key a) w")
      case (Inl err)
      with Some setup_openai_client_Inl [OF Inl] show ?thesis
        by (simp add: main_generate_thinker_questionnaires_def read_thinker_text_def
            generate_thinker_questionnaire_def)
    next
      case (Inr client)
      with Some setup_openai_client_Inr [OF Inr] show ?thesis
        by (auto simp: main_generate_thinker_questionnaires_def read_thinker_text_def
            generate_thinker_questionnaire_def save_questionnaire_def save_to_def Let_def
            split: prod.splits if_splits)
    qed
  qed
  have d: "fst (main_generate_thinker_questionnaires a w) \<noteq> Inl e"
    by (rule questionnaires_main_never_raises)
  have e: "snd (main_generate_thinker_meaning a w) = w
          \<and> snd (main_generate_thinker_questionnaires a w) = w"
    if "\<not> truthy (api_key a) \<and> \<not> truthy (environ w)"
  proof -
    from that have "setup_openai_client (api_key a) w = Inl ValueError"
      by (simp add: setup_openai_client_ValueError)
    then show ?thesis
      by (simp add: main_generate_thinker_meaning_def generate_thinker_meaning_essay_def
          main_generate_thinker_questionnaires_def generate_thinker_questionnaire_def
          read_thinker_text_def Let_def split: option.splits)
  qed
  show ?thesis using a b c d e by blast
qed

theorem missing_credential_raised_iff_absent_witness:
  "\<not> truthy (api_key (example_args None))
   \<and> \<not> truthy (environ (example_world (Some []) [camus_essay_path \<mapsto> u ''Essay.''] (Returns (u ''Q1''))))
   \<and> setup_openai_client (api_key (example_args None))
        (example_world (Some []) [camus_essay_path \<mapsto> u ''Essay.''] (Returns (u ''Q1'')))
       = Inl ValueError
   \<and> main_generate_thinker_questionnaires (example_args None)
        (example_world (Some []) [camus_essay_path \<mapsto> u ''Essay.''] (Returns (u ''Q1'')))
       = (Inr (Reported ValueError),
          example_world (Some []) [camus_essay_path \<mapsto> u ''Essay.''] (Returns (u ''Q1'')))
   \<and> snd (main_generate_thinker_meaning (example_args None)
        (example_world (Some []) [camus_essay_path \<mapsto> u ''Essay.''] (Returns (u ''Q1''))))
       = example_world (Some []) [camus_essay_path \<mapsto> u ''Essay.''] (Returns (u ''Q1''))"
proof -
  let ?a = "example_args None"
  let ?w = "example_world (Some []) [camus_essay_path \<mapsto> u ''Essay.''] (Returns (u ''Q1''))"
  have h: "\<not> truthy (api_key ?a) \<and> \<not> truthy (environ ?w)"
    by (simp add: example_args_def example_world_def)
  have f: "files ?w (Path_in thinkers_texts (essay_filename (thinker_name ?a))) \<noteq> None"
    by (simp add: example_args_def camus_path) (simp add: example_world_def)
  note inst = missing_credential_raised_iff_absent [of ?a ?w]
  from inst h have c1: "setup_openai_client (api_key ?a) ?w = Inl ValueError"
    by blast
  from inst h f have c2: "fst (main_generate_thinker_questionnaires ?a ?w) = Inr (Reported ValueError)"
    by blast
  from inst h have c3: "snd (main_generate_thinker_meaning ?a ?w) = ?w
      \<and> snd (main_generate_thinker_questionnaires ?a ?w) = ?w"
    by blast
  from c2 c3 have c4: "main_generate_thinker_questionnaires ?a ?w = (Inr (Reported ValueError), ?w)"
    by (simp add: prod_eq_iff)
  show ?thesis using h c1 c3 c4 by simp
qed

text \<open>
  C6. A successful single-item run writes exactly one file: the files after the run
  are those before it, except at the path built from the thinker name
  (\<open>../thinkers_texts/<slug>_meaning.txt\<close> or
  \<open>../generated_questionnaires/<slug>_questionnaire.txt\<close>). That file holds the
  line \<open>Generated on:\<close> with the timestamp, the line \<open>Thinker:\<close> with the name
  as supplied, for a questionnaire the line of its type, a line of fifty \<open>=\<close>, an
  empty line, and then the text generated: the stripped answer of the collaborator.
\<close>

theorem successful_run_writes_one_file:
  "(succeeded (fst (main_generate_thinker_meaning a w)) \<longrightarrow>
      (\<exists>client content.
         setup_openai_client (api_key a) w = Inr client
         \<and> respond w (EssayRequest client (model a) (thinker_name a)) = Returns content
         \<and> fst (main_generate_thinker_meaning a w)
           = Inr (Saved (Path_in (u ''../thinkers_texts'')
                    (lower (replace (u '' '') (u ''_'') (thinker_name a)) @ u ''_meaning.txt'')))
         \<and> files (snd (main_generate_thinker_meaning a w))
           = (files w)
               (Path_in (u ''../thinkers_texts'')
                  (lower (replace (u '' '') (u ''_'') (thinker_name a)) @ u ''_meaning.txt'')
                \<mapsto> u ''Generated on: '' @ now w @ [0x0A]
                    @ u ''Thinker: '' @ thinker_name a @ [0x0A]
                    @ replicate 50 0x3D @ [0x0A] @ [0x0A] @ strip content)))
   \<and> (succeeded (fst (main_generate_thinker_questionnaires a w)) \<longrightarrow>
      (\<exists>thinker_text client content.
         files w (Path_in (u ''../thinkers_texts'')
                    (lower (replace (u '' '') (u ''_'') (thinker_name a)) @ u ''_meaning.txt''))
           = Some thinker_text
         \<and> setup_openai_client (api_key a) w = Inr client
         \<and> respond w (QuestionnaireRequest client (model a) (thinker_name a) thinker_text)
             = Returns content
         \<and> fst (main_generate_thinker_questionnaires a w)
           = Inr (Saved (Path_in (u ''../generated_questionnaires'')
                    (lower (replace (u '' '') (u ''_'') (thinker_name a)) @ u ''_questionnaire.txt'')))
         \<and> files (snd (main_generate_thinker_questionnaires a w))
           = (files w)
               (Path_in (u ''../generated_questionnaires'')
                  (lower (replace (u '' '') (u ''_'') (thinker_name a)) @ u ''_questionnaire.txt'')
                \<mapsto> u ''Generated on: '' @ now w @ [0x0A]
                    @ u ''Thinker: '' @ thinker_name a @ [0x0A]
                    @ u ''Questionnaire Type: Meaning in Life'' @ [0x0A]
                    @ replicate 50 0x3D @ [0x0A] @ [0x0A] @ strip content)))"
proof (intro conjI impI)
  assume "succeeded (fst (main_generate_thinker_meaning a w))"
  from meaning_main_succeeded [OF this] show "\<exists>client content.
         setup_openai_client (api_key a) w = Inr client
         \<and> respond w (EssayRequest client (model a) (thinker_name a)) = Returns content
         \<and> fst (main_generate_thinker_meaning a w)
           = Inr (Saved (Path_in (u ''../thinkers_texts'')
                    (lower (replace (u '' '') (u ''_'') (thinker_name a)) @ u ''_meaning.txt'')))
         \<and> files (snd (main_generate_thinker_meaning a w))
           = (files w)
               (Path_in (u ''../thinkers_texts'')
                  (lower (replace (u '' '') (u ''_'') (thinker_name a)) @ u ''_meaning.txt'')
                \<mapsto> u ''Generated on: '' @ now w @ [0x0A]
                    @ u ''Thinker: '' @ thinker_name a @ [0x0A]
                    @ replicate 50 0x3D @ [0x0A] @ [0x0A] @ strip content)"
    by (auto simp: thinkers_texts_def essay_filename_def slug_def essay_header_def)
next
  assume "succeeded (fst (main_generate_thinker_questionnaires a w))"
  from questionnaires_main_succeeded [OF this] show "\<exists>thinker_text client content.
         files w (Path_in (u ''../thinkers_texts'')
                    (lower (replace (u '' '') (u ''_'') (thinker_name a)) @ u ''_meaning.txt''))
           = Some thinker_text
         \<and> setup_openai_client (api_key a) w = Inr client
         \<and> respond w (QuestionnaireRequest client (model a) (thinker_name a) thinker_text)
             = Returns content
         \<and> fst (main_generate_thinker_questionnaires a w)
           = Inr (Saved (Path_in (u ''../generated_questionnaires'')
                    (lower (replace (u '' '') (u ''_'') (thinker_name a)) @ u ''_questionnaire.txt'')))
         \<and> files (snd (main_generate_thinker_questionnaires a w))
           = (files w)
               (Path_in (u ''../generated_questionnaires'')
                  (lower (replace (u '' '') (u ''_'') (thinker_name a)) @ u ''_questionnaire.txt'')
                \<mapsto> u ''Generated on: '' @ now w @ [0x0A]
                    @ u ''Thinker: '' @ thinker_name a @ [0x0A]
                    @ u ''Questionnaire Type: Meaning in Life'' @ [0x0A]
                    @ replicate 50 0x3D @ [0x0A] @ [0x0A] @ strip content)"
    by (auto simp: generated_questionnaires_def questionnaire_filename_def slug_def
        questionnaire_header_def read_thinker_text_def thinkers_texts_def essay_filename_def
        Let_def split: option.splits)
qed

theorem successful_run_writes_one_file_witness:
  "succeeded (fst (main_generate_thinker_meaning (example_args (Some (u ''sk-test'')))
       (example_world None Map.empty (Returns (u ''Essay.'')))))
   \<and> files (snd (main_generate_thinker_meaning (example_args (Some (u ''sk-test'')))
       (example_world None Map.empty (Returns (u ''Essay.'')))))
       = Map.empty(camus_essay_path \<mapsto>
           u ''Generated on: 2024-05-01 12:00:00'' @ [0x0A] @ u ''Thinker: Albert Camus'' @ [0x0A]
             @ replicate 50 0x3D @ [0x0A, 0x0A] @ u ''Essay.'')
   \<and> succeeded (fst (main_generate_thinker_questionnaires (example_args (Some (u ''sk-test'')))
       (example_world None [camus_essay_path \<mapsto> u ''Essay.''] (Returns (u ''Q1'')))))"
proof -
  let ?a = "example_args (Some (u ''sk-test''))"
  let ?w = "example_world None Map.empty (Returns (u ''Essay.''))"
  let ?w' = "example_world None [camus_essay_path \<mapsto> u ''Essay.''] (Returns (u ''Q1''))"
  have h: "succeeded (fst (main_generate_thinker_meaning ?a ?w))"
    by (simp add: run_eval u_def is_space_def strip_def)
  have h': "succeeded (fst (main_generate_thinker_questionnaires ?a ?w'))"
    by (simp add: run_eval camus_path [simplified thinkers_texts_def] thinkers_texts_def)
       (simp add: u_def is_space_def strip_def)
  have "\<exists>client content.
         setup_openai_client (api_key ?a) ?w = Inr client
         \<and> respond ?w (EssayRequest client (model ?a) (thinker_name ?a)) = Returns content
         \<and> fst (main_generate_thinker_meaning ?a ?w)
           = Inr (Saved (Path_in (u ''../thinkers_texts'')
                    (lower (replace (u '' '') (u ''_'') (thinker_name ?a)) @ u ''_meaning.txt'')))
         \<and> files (snd (main_generate_thinker_meaning ?a ?w))
           = (files ?w)
               (Path_in (u ''../thinkers_texts'')
                  (lower (replace (u '' '') (u ''_'') (thinker_name ?a)) @ u ''_meaning.txt'')
                \<mapsto> u ''Generated on: '' @ now ?w @ [0x0A]
                    @ u ''Thinker: '' @ thinker_name ?a @ [0x0A]
                    @ replicate 50 0x3D @ [0x0A] @ [0x0A] @ strip content)"
    using h successful_run_writes_one_file [of ?a ?w] by blast
  then have "files (snd (main_generate_thinker_meaning ?a ?w))
       = Map.empty(camus_essay_path \<mapsto>
           u ''Generated on: 2024-05-01 12:00:00'' @ [0x0A] @ u ''Thinker: Albert Camus'' @ [0x0A]
             @ replicate 50 0x3D @ [0x0A, 0x0A] @ u ''Essay.'')"
    by (auto simp: example_world_def example_args_def camus_essay_path_def str_eval)
  with h h' show ?thesis by simp
qed

text \<open>
  C7, as stated, has every non-empty answer persisted as it is. An answer with a
  leading space is persisted without the space.
\<close>

theorem returned_text_not_persisted_as_is:
  "respond (example_world None Map.empty (Returns (u '' Essay.'')))
       (EssayRequest (u ''sk-test'') (u ''gpt-4'') (u ''Albert Camus'')) = Returns (u '' Essay.'')
   \<and> u '' Essay.'' \<noteq> []
   \<and> files (snd (main_generate_thinker_meaning (example_args (Some (u ''sk-test'')))
         (example_world None Map.empty (Returns (u '' Essay.''))))) camus_essay_path
       = Some (essay_header (u ''2024-05-01 12:00:00'') (u ''Albert Camus'') @ u ''Essay.'')
   \<and> files (snd (main_generate_thinker_meaning (example_args (Some (u ''sk-test'')))
         (example_world None Map.empty (Returns (u '' Essay.''))))) camus_essay_path
       \<noteq> Some (essay_header (u ''2024-05-01 12:00:00'') (u ''Albert Camus'') @ u '' Essay.'')"
  by (simp add: run_eval camus_path [simplified thinkers_texts_def] thinkers_texts_def)
     (simp add: u_def is_space_def strip_def essay_header_def camus_essay_path_def)

text \<open>
  C7, amended. For every answer of the collaborator that is not empty once leading and
  trailing white space is stripped, a run that finds its credential (and its essay)
  and can write its file accepts the answer without any other check, and the body
  after the header is the stripped answer. It is the answer itself when the answer
  neither starts nor ends with white space.
\<close>

theorem returned_text_persisted_stripped:
  "(setup_openai_client (api_key a) w = Inr client
      \<and> respond w (EssayRequest client (model a) (thinker_name a)) = Returns content
      \<and> strip content \<noteq> []
      \<and> \<not> mkdir_fails w thinkers_texts
      \<and> \<not> open_fails w (Path_in thinkers_texts (essay_filename (thinker_name a)))
    \<longrightarrow> fst (main_generate_thinker_meaning a w)
          = Inr (Saved (Path_in thinkers_texts (essay_filename (thinker_name a))))
        \<and> files (snd (main_generate_thinker_meaning a w))
            (Path_in thinkers_texts (essay_filename (thinker_name a)))
          = Some (essay_header (now w) (thinker_name a) @ strip content))
   \<and> (read_thinker_text (thinker_name a) w = Inr thinker_text
      \<and> setup_openai_client (api_key a) w = Inr client
      \<and> respond w (QuestionnaireRequest client (model a) (thinker_name a) thinker_text)
          = Returns content
      \<and> strip content \<noteq> []
      \<and> \<not> mkdir_fails w generated_questionnaires
      \<and> \<not> open_fails w (Path_in generated_questionnaires (questionnaire_filename (thinker_name a)))
    \<longrightarrow> fst (main_generate_thinker_questionnaires a w)
          = Inr (Saved (Path_in generated_questionnaires (questionnaire_filename (thinker_name a))))
        \<and> files (snd (main_generate_thinker_questionnaires a w))
            (Path_in generated_questionnaires (questionnaire_filename (thinker_name a)))
          = Some (questionnaire_header (now w) (thinker_name a) @ strip content))
   \<and> (content \<noteq> [] \<and> \<not> is_space (hd content) \<and> \<not> is_space (last content)
    \<longrightarrow> strip content = content)"
proof (intro conjI impI)
  assume h: "setup_openai_client (api_key a) w = Inr client
      \<and> respond w (EssayRequest client (model a) (thinker_name a)) = Returns content
      \<and> strip content \<noteq> []
      \<and> \<not> mkdir_fails w thinkers_texts
      \<and> \<not> open_fails w (Path_in thinkers_texts (essay_filename (thinker_name a)))"
  then have m: "main_generate_thinker_meaning a w =
      (Inr (Saved (Path_in thinkers_texts (essay_filename (thinker_name a)))),
       w\<lparr>calls := calls w @ [EssayRequest client (model a) (thinker_name a)],
         dirs := insert thinkers_texts (dirs w),
         files := (files w)(Path_in thinkers_texts (essay_filename (thinker_name a))
                     \<mapsto> essay_header (now w) (thinker_name a) @ strip content)\<rparr>)"
    by (simp add: meaning_main_unfold create_completion_eq save_to_def Let_def)
  show "fst (main_generate_thinker_meaning a w)
          = Inr (Saved (Path_in thinkers_texts (essay_filename (thinker_name a))))"
    by (simp add: m)
  show "files (snd (main_generate_thinker_meaning a w))
            (Path_in thinkers_texts (essay_filename (thinker_name a)))
          = Some (essay_header (now w) (thinker_name a) @ strip content)"
    by (simp add: m)
next
  assume h: "read_thinker_text (thinker_name a) w = Inr thinker_text
      \<and> setup_openai_client (api_key a) w = Inr client
      \<and> respond w (QuestionnaireRequest client (model a) (thinker_name a) thinker_text)
          = Returns content
      \<and> strip content \<noteq> []
      \<and> \<not> mkdir_fails w generated_questionnaires
      \<and> \<not> open_fails w (Path_in generated_questionnaires (questionnaire_filename (thinker_name a)))"
  then have m: "main_generate_thinker_questionnaires a w =
      (Inr (Saved (Path_in generated_questionnaires (questionnaire_filename (thinker_name a)))),
       w\<lparr>calls := calls w @ [QuestionnaireRequest client (model a) (thinker_name a) thinker_text],
         dirs := insert generated_questionnaires (dirs w),
         files := (files w)(Path_in generated_questionnaires (questionnaire_filename (thinker_name a))
                     \<mapsto> questionnaire_header (now w) (thinker_name a) @ strip content)\<rparr>)"
    by (simp add: questionnaires_main_unfold create_completion_eq save_to_def Let_def)
  show "fst (main_generate_thinker_questionnaires a w)
          = Inr (Saved (Path_in generated_questionnaires (questionnaire_filename (thinker_name a))))"
    by (simp add: m)
  show "files (snd (main_generate_thinker_questionnaires a w))
            (Path_in generated_questionnaires (questionnaire_filename (thinker_name a)))
          = Some (questionnaire_header (now w) (thinker_name a) @ strip content)"
    by (simp add: m)
next
  assume "content \<noteq> [] \<and> \<not> is_space (hd content) \<and> \<not> is_space (last content)"
  then show "strip content = content"
    by (simp add: strip_unchanged)
qed

theorem returned_text_persisted_stripped_witness:
  "setup_openai_client (api_key (example_args (Some (u ''sk-test''))))
       (example_world None [camus_essay_path \<mapsto> u ''Essay.''] (Returns (u '' Q1 ''))) = Inr (u ''sk-test'')
   \<and> strip (u '' Q1 '') = u ''Q1''
   \<and> files (snd (main_generate_thinker_meaning (example_args (Some (u ''sk-test'')))
         (example_world None [camus_essay_path \<mapsto> u ''Essay.''] (Returns (u '' Q1 '')))))
         camus_essay_path
       = Some (essay_header (u ''2024-05-01 12:00:00'') (u ''Albert Camus'') @ u ''Q1'')
   \<and> files (snd (main_generate_thinker_questionnaires (example_args (Some (u ''sk-test'')))
         (example_world None [camus_essay_path \<mapsto> u ''Essay.''] (Returns (u '' Q1 '')))))
         (Path_in generated_questionnaires (u ''albert_camus_questionnaire.txt''))
       = Some (questionnaire_header (u ''2024-05-01 12:00:00'') (u ''Albert Camus'') @ u ''Q1'')
   \<and> strip (u ''Essay.'') = u ''Essay.''"
proof -
  let ?a = "example_args (Some (u ''sk-test''))"
  let ?w = "example_world None [camus_essay_path \<mapsto> u ''Essay.''] (Returns (u '' Q1 ''))"
  have n: "thinker_name ?a = u ''Albert Camus''" "model ?a = u ''gpt-4''"
      "now ?w = u ''2024-05-01 12:00:00''"
    by (simp_all add: example_args_def example_world_def)
  have s: "setup_openai_client (api_key ?a) ?w = Inr (u ''sk-test'')"
    by (simp add: setup_openai_client_def example_args_def u_def)
  have st: "strip (u '' Q1 '') = u ''Q1''"
    by (simp add: u_def strip_def is_space_def)
  have r: "read_thinker_text (thinker_name ?a) ?w = Inr (u ''Essay.'')"
    by (simp add: read_thinker_text_def n camus_path Let_def) (simp add: example_world_def)
  have h1: "setup_openai_client (api_key ?a) ?w = Inr (u ''sk-test'')
      \<and> respond ?w (EssayRequest (u ''sk-test'') (model ?a) (thinker_name ?a)) = Returns (u '' Q1 '')
      \<and> strip (u '' Q1 '') \<noteq> []
      \<and> \<not> mkdir_fails ?w thinkers_texts
      \<and> \<not> open_fails ?w (Path_in thinkers_texts (essay_filename (thinker_name ?a)))"
    by (simp add: s st) (simp add: example_world_def u_def)
  have h2: "read_thinker_text (thinker_name ?a) ?w = Inr (u ''Essay.'')
      \<and> setup_openai_client (api_key ?a) ?w = Inr (u ''sk-test'')
      \<and> respond ?w (QuestionnaireRequest (u ''sk-test'') (model ?a) (thinker_name ?a) (u ''Essay.''))
          = Returns (u '' Q1 '')
      \<and> strip (u '' Q1 '') \<noteq> []
      \<and> \<not> mkdir_fails ?w generated_questionnaires
      \<and> \<not> open_fails ?w (Path_in generated_questionnaires (questionnaire_filename (thinker_name ?a)))"
    by (simp add: s st r) (simp add: example_world_def u_def)
  have h3: "u ''Essay.'' \<noteq> [] \<and> \<not> is_space (hd (u ''Essay.'')) \<and> \<not> is_space (last (u ''Essay.''))"
    by (simp add: u_def is_space_def)
  note i1 = returned_text_persisted_stripped
      [of ?a ?w "u ''sk-test''" "u '' Q1 ''" "u ''Essay.''"]
  note i2 = returned_text_persisted_stripped
      [of ?a ?w "u ''sk-test''" "u ''Essay.''" "u ''Essay.''"]
  from i1 h1 have c1: "files (snd (main_generate_thinker_meaning ?a ?w))
            (Path_in thinkers_texts (essay_filename (thinker_name ?a)))
          = Some (essay_header (now ?w) (thinker_name ?a) @ strip (u '' Q1 ''))"
    by blast
  from i1 h2 have c2: "files (snd (main_generate_thinker_questionnaires ?a ?w))
            (Path_in generated_questionnaires (questionnaire_filename (thinker_name ?a)))
          = Some (questionnaire_header (now ?w) (thinker_name ?a) @ strip (u '' Q1 ''))"
    by blast
  from i2 h3 have c3: "strip (u ''Essay.'') = u ''Essay.''"
    by blast
  show ?thesis
    using s st c1 c2 c3 by (simp add: n camus_path camus_qpath)
qed

text \<open>
  C8. In a batch run the fixed pause occurs once between two consecutive items and
  never after the last one: the events of the loop on a list of N items are the items
  in order with one pause after each item but the last. So there are N - 1 pauses
  (none for N = 1), and the last event is the start of the last item. The pause is 2
  seconds in batch_generate_thinkers.py and 3 seconds in
  batch_generate_questionnaires.py.
\<close>

theorem one_pause_between_consecutive_items:
  "events (batch_loop run pause (length thinkers) (enumerate 1 thinkers) s0)
     = events s0 @ paused_between pause thinkers
   \<and> events (main_batch_generate_thinkers exe sub line w) = paused_between 2 fixed_thinkers
   \<and> pauses (events (main_batch_generate_thinkers exe sub line w))
       = replicate (length fixed_thinkers - 1) 2
   \<and> last (events (main_batch_generate_thinkers exe sub line w))
       = Processing (last fixed_thinkers)
   \<and> (\<forall>s. main_batch_generate_questionnaires exe' sub' dir line' w' = Some s \<longrightarrow>
          events s = paused_between 3 (get_available_thinkers dir)
          \<and> pauses (events s) = replicate (length (get_available_thinkers dir) - 1) 3
          \<and> last (events s) = Processing (last (get_available_thinkers dir)))"
proof -
  have a: "events (batch_loop run pause (length thinkers) (enumerate 1 thinkers) s0)
     = events s0 @ paused_between pause thinkers"
    by (simp add: batch_loop_events)
  have b: "events (main_batch_generate_thinkers exe sub line w) = paused_between 2 fixed_thinkers"
    by (simp add: thinkers_loop batch_loop_events)
  have nonempty: "fixed_thinkers \<noteq> []"
    by (simp add: fixed_thinkers_def)
  have c: "pauses (events (main_batch_generate_thinkers exe sub line w))
       = replicate (length fixed_thinkers - 1) 2"
    by (simp only: b pauses_paused_between)
  have d: "last (events (main_batch_generate_thinkers exe sub line w))
       = Processing (last fixed_thinkers)"
    by (simp only: b last_paused_between [OF nonempty])
  have e: "events s = paused_between 3 (get_available_thinkers dir)
          \<and> pauses (events s) = replicate (length (get_available_thinkers dir) - 1) 3
          \<and> last (events s) = Processing (last (get_available_thinkers dir))"
    if run: "main_batch_generate_questionnaires exe' sub' dir line' w' = Some s" for s
  proof -
    have ne: "get_available_thinkers dir \<noteq> []"
      using run by (auto simp: main_batch_generate_questionnaires_def Let_def split: if_splits)
    have ev: "events s = paused_between 3 (get_available_thinkers dir)"
      using questionnaires_loop [OF run] by (simp add: batch_loop_events)
    show ?thesis
      by (simp only: ev pauses_paused_between last_paused_between [OF ne])
  qed
  show ?thesis using a b c d e by blast
qed

theorem one_pause_between_consecutive_items_witness:
  "main_batch_generate_questionnaires (u ''python3'') example_launcher example_dir (u '' '') ()
     = Some \<lparr>successful = 1, failed = 1,
         events = [Processing (u ''Albert Camus''), Sleep 3, Processing (u ''Viktor Frankl'')],
         machine = ()\<rparr>
   \<and> [Processing (u ''Albert Camus''), Sleep 3, Processing (u ''Viktor Frankl'')]
       = paused_between 3 (get_available_thinkers example_dir)
   \<and> pauses [Processing (u ''Albert Camus''), Sleep 3, Processing (u ''Viktor Frankl'')]
       = replicate (length (get_available_thinkers example_dir) - 1) 3
   \<and> pauses [Processing (u ''Albert Camus''), Sleep 3, Processing (u ''Viktor Frankl'')] = [3]"
proof -
  have run: "main_batch_generate_questionnaires (u ''python3'') example_launcher example_dir (u '' '') ()
     = Some \<lparr>successful = 1, failed = 1,
         events = [Processing (u ''Albert Camus''), Sleep 3, Processing (u ''Viktor Frankl'')],
         machine = ()\<rparr>"
    by (rule example_batch_run)
  have "\<forall>s. main_batch_generate_questionnaires (u ''python3'') example_launcher example_dir (u '' '') () = Some s \<longrightarrow>
          events s = paused_between 3 (get_available_thinkers example_dir)
          \<and> pauses (events s) = replicate (length (get_available_thinkers example_dir) - 1) 3
          \<and> last (events s) = Processing (last (get_available_thinkers example_dir))"
    using one_pause_between_consecutive_items
      [of "\<lambda>t w. (True, w)" 0 "[]" "\<lparr>successful = 0, failed = 0, events = [], machine = ()\<rparr>"
          "u ''python3''" example_launcher "u '' ''" "()" "u ''python3''" example_launcher example_dir "u '' ''" "()"]
    by blast
  with run show ?thesis by auto
qed

text \<open>
  C9. \<open>get_available_thinkers\<close> returns the display names in ascending order of
  Python's string comparison, and the result does not depend on the order in which the
  directory lists its entries: two listings that hold the same entries give the same
  list. The questionnaire batch starts on the thinkers in that order.
\<close>

theorem available_thinkers_sorted:
  "sorted (get_available_thinkers dir)
   \<and> (mset entries = mset entries' \<longrightarrow>
        get_available_thinkers (Some entries) = get_available_thinkers (Some entries'))
   \<and> (\<forall>s. main_batch_generate_questionnaires exe sub dir line w = Some s \<longrightarrow>
          processed (events s) = get_available_thinkers dir)"
proof -
  have a: "sorted (get_available_thinkers dir)"
    by (cases dir) (simp_all add: get_available_thinkers_def)
  have b: "get_available_thinkers (Some entries) = get_available_thinkers (Some entries')"
    if "mset entries = mset entries'"
  proof -
    have "mset (map display_name (filter glob_meaning entries))
        = mset (map display_name (filter glob_meaning entries'))"
      using that by simp
    then have "mset (sort (map display_name (filter glob_meaning entries')))
        = mset (map display_name (filter glob_meaning entries))"
      by simp
    then show ?thesis
      unfolding get_available_thinkers_def option.case
      by (intro properties_for_sort) simp_all
  qed
  have c: "processed (events s) = get_available_thinkers dir"
    if "main_batch_generate_questionnaires exe sub dir line w = Some s" for s
    using questionnaires_loop [OF that] by (simp add: batch_loop_processed map_snd_enumerate)
  show ?thesis using a b c by blast
qed

theorem available_thinkers_sorted_witness:
  "mset [u ''b_meaning.txt'', u ''a_meaning.txt''] = mset [u ''a_meaning.txt'', u ''b_meaning.txt'']
   \<and> get_available_thinkers (Some [u ''b_meaning.txt'', u ''a_meaning.txt'']) = [u ''A'', u ''B'']
   \<and> get_available_thinkers (Some [u ''a_meaning.txt'', u ''b_meaning.txt'']) = [u ''A'', u ''B'']
   \<and> main_batch_generate_questionnaires (u ''python3'') example_launcher example_dir (u '' '') ()
     = Some \<lparr>successful = 1, failed = 1,
         events = [Processing (u ''Albert Camus''), Sleep 3, Processing (u ''Viktor Frankl'')],
         machine = ()\<rparr>
   \<and> processed [Processing (u ''Albert Camus''), Sleep 3, Processing (u ''Viktor Frankl'')]
       = get_available_thinkers example_dir"
proof -
  have m: "mset [u ''b_meaning.txt'', u ''a_meaning.txt''] = mset [u ''a_meaning.txt'', u ''b_meaning.txt'']"
    by (simp add: add.commute)
  have v: "get_available_thinkers (Some [u ''a_meaning.txt'', u ''b_meaning.txt'']) = [u ''A'', u ''B'']"
    by (simp add: naming_eval str_eval suffix_to_prefix)
  have run: "main_batch_generate_questionnaires (u ''python3'') example_launcher example_dir (u '' '') ()
     = Some \<lparr>successful = 1, failed = 1,
         events = [Processing (u ''Albert Camus''), Sleep 3, Processing (u ''Viktor Frankl'')],
         machine = ()\<rparr>"
    by (rule example_batch_run)
  note inst = available_thinkers_sorted
      [of example_dir "[u ''b_meaning.txt'', u ''a_meaning.txt'']" "[u ''a_meaning.txt'', u ''b_meaning.txt'']"
          "u ''python3''" example_launcher "u '' ''" "()"]
  from inst m have eq: "get_available_thinkers (Some [u ''b_meaning.txt'', u ''a_meaning.txt''])
      = get_available_thinkers (Some [u ''a_meaning.txt'', u ''b_meaning.txt''])"
    by blast
  from inst run have p: "processed [Processing (u ''Albert Camus''), Sleep 3, Processing (u ''Viktor Frankl'')]
       = get_available_thinkers example_dir"
    by auto
  show ?thesis using m v eq run p by simp
qed

text \<open>
  C10. When the collaborator raises, or answers with a text that is empty once
  stripped, the generation function returns a value that Python takes as false
  (\<open>None\<close>, or the empty string), \<open>main\<close> takes the branch that prints the
  failure, and the run only adds the request to the log: the files and the directories
  are those from before the run.
\<close>

theorem no_text_writes_no_file:
  "(setup_openai_client (api_key a) w = Inr client
      \<and> (respond w (EssayRequest client (model a) (thinker_name a)) = Raises e
         \<or> (\<exists>content. respond w (EssayRequest client (model a) (thinker_name a)) = Returns content
               \<and> strip content = []))
    \<longrightarrow> (\<exists>essay. \<not> truthy essay
          \<and> generate_thinker_meaning_essay (thinker_name a) (api_key a) (model a) w
              = (Inr essay, w\<lparr>calls := calls w @ [EssayRequest client (model a) (thinker_name a)]\<rparr>))
        \<and> main_generate_thinker_meaning a w
            = (Inr Failed_to_generate,
               w\<lparr>calls := calls w @ [EssayRequest client (model a) (thinker_name a)]\<rparr>)
        \<and> files (snd (main_generate_thinker_meaning a w)) = files w
        \<and> dirs (snd (main_generate_thinker_meaning a w)) = dirs w)
   \<and> (read_thinker_text (thinker_name a) w = Inr thinker_text
      \<and> setup_openai_client (api_key a) w = Inr client
      \<and> (respond w (QuestionnaireRequest client (model a) (thinker_name a) thinker_text) = Raises e
         \<or> (\<exists>content. respond w (QuestionnaireRequest client (model a) (thinker_name a) thinker_text)
                 = Returns content
               \<and> strip content = []))
    \<longrightarrow> (\<exists>questionnaire. \<not> truthy questionnaire
          \<and> generate_thinker_questionnaire (thinker_name a) thinker_text (api_key a) (model a) w
              = (Inr questionnaire,
                 w\<lparr>calls := calls w
                     @ [QuestionnaireRequest client (model a) (thinker_name a) thinker_text]\<rparr>))
        \<and> main_generate_thinker_questionnaires a w
            = (Inr Failed_to_generate,
               w\<lparr>calls := calls w
                   @ [QuestionnaireRequest client (model a) (thinker_name a) thinker_text]\<rparr>)
        \<and> files (snd (main_generate_thinker_questionnaires a w)) = files w
        \<and> dirs (snd (main_generate_thinker_questionnaires a w)) = dirs w)"
proof (intro conjI impI)
  let ?req = "EssayRequest client (model a) (thinker_name a)"
  assume h: "setup_openai_client (api_key a) w = Inr client
      \<and> (respond w ?req = Raises e
         \<or> (\<exists>content. respond w ?req = Returns content \<and> strip content = []))"
  then have v: "\<not> truthy (fst (create_completion ?req w))"
    by (auto simp: create_completion_eq)
  from h have g: "generate_thinker_meaning_essay (thinker_name a) (api_key a) (model a) w
            = (Inr (fst (create_completion ?req w)), w\<lparr>calls := calls w @ [?req]\<rparr>)"
    by (simp add: generate_thinker_meaning_essay_def create_completion_eq)
  from v g have m: "main_generate_thinker_meaning a w
            = (Inr Failed_to_generate, w\<lparr>calls := calls w @ [?req]\<rparr>)"
    by (simp add: main_generate_thinker_meaning_def)
  show "\<exists>essay. \<not> truthy essay
          \<and> generate_thinker_meaning_essay (thinker_name a) (api_key a) (model a) w
              = (Inr essay, w\<lparr>calls := calls w @ [?req]\<rparr>)"
    using v g by blast
  show "main_generate_thinker_meaning a w
            = (Inr Failed_to_generate, w\<lparr>calls := calls w @ [?req]\<rparr>)"
    by (rule m)
  show "files (snd (main_generate_thinker_meaning a w)) = files w" by (simp add: m)
  show "dirs (snd (main_generate_thinker_meaning a w)) = dirs w" by (simp add: m)
next
  let ?req = "QuestionnaireRequest client (model a) (thinker_name a) thinker_text"
  assume h: "read_thinker_text (thinker_name a) w = Inr thinker_text
      \<and> setup_openai_client (api_key a) w = Inr client
      \<and> (respond w ?req = Raises e
         \<or> (\<exists>content. respond w ?req = Returns content \<and> strip content = []))"
  then have v: "\<not> truthy (fst (create_completion ?req w))"
    by (auto simp: create_completion_eq)
  from h have g: "generate_thinker_questionnaire (thinker_name a) thinker_text (api_key a) (model a) w
            = (Inr (fst (create_completion ?req w)), w\<lparr>calls := calls w @ [?req]\<rparr>)"
    by (simp add: generate_thinker_questionnaire_def create_completion_eq)
  from h v g have m: "main_generate_thinker_questionnaires a w
            = (Inr Failed_to_generate, w\<lparr>calls := calls w @ [?req]\<rparr>)"
    by (simp add: main_generate_thinker_questionnaires_def)
  show "\<exists>questionnaire. \<not> truthy questionnaire
          \<and> generate_thinker_questionnaire (thinker_name a) thinker_text (api_key a) (model a) w
              = (Inr questionnaire, w\<lparr>calls := calls w @ [?req]\<rparr>)"
    using v g by blast
  show "main_generate_thinker_questionnaires a w
            = (Inr Failed_to_generate, w\<lparr>calls := calls w @ [?req]\<rparr>)"
    by (rule m)
  show "files (snd (main_generate_thinker_questionnaires a w)) = files w" by (simp add: m)
  show "dirs (snd (main_generate_thinker_questionnaires a w)) = dirs w" by (simp add: m)
qed

theorem no_text_writes_no_file_witness:
  "setup_openai_client (api_key (example_args (Some (u ''sk-test''))))
       (example_world None [camus_essay_path \<mapsto> u ''Essay.''] (Returns [0x20, 0x0A]))
     = Inr (u ''sk-test'')
   \<and> strip [0x20, 0x0A] = []
   \<and> main_generate_thinker_meaning (example_args (Some (u ''sk-test'')))
         (example_world None [camus_essay_path \<mapsto> u ''Essay.''] (Returns [0x20, 0x0A]))
       = (Inr Failed_to_generate,
          (example_world None [camus_essay_path \<mapsto> u ''Essay.''] (Returns [0x20, 0x0A]))
            \<lparr>calls := [EssayRequest (u ''sk-test'') (u ''gpt-4'') (u ''Albert Camus'')]\<rparr>)
   \<and> files (snd (main_generate_thinker_questionnaires (example_args (Some (u ''sk-test'')))
         (example_world None [camus_essay_path \<mapsto> u ''Essay.''] (Returns [0x20, 0x0A]))))
       = [camus_essay_path \<mapsto> u ''Essay.'']"
proof -
  let ?a = "example_args (Some (u ''sk-test''))"
  let ?w = "example_world None [camus_essay_path \<mapsto> u ''Essay.''] (Returns [0x20, 0x0A])"
  have n: "thinker_name ?a = u ''Albert Camus''" "model ?a = u ''gpt-4''"
      "calls ?w = []" "files ?w = [camus_essay_path \<mapsto> u ''Essay.'']"
    by (simp_all add: example_args_def example_world_def)
  have s: "setup_openai_client (api_key ?a) ?w = Inr (u ''sk-test'')"
    by (simp add: setup_openai_client_def example_args_def u_def)
  have st: "strip [0x20, 0x0A] = []"
    by (simp add: strip_def is_space_def)
  have r: "read_thinker_text (thinker_name ?a) ?w = Inr (u ''Essay.'')"
    by (simp add: read_thinker_text_def n camus_path Let_def)
  have a: "respond ?w req = Returns [0x20, 0x0A]" for req
    by (simp add: example_world_def)
  have h1: "setup_openai_client (api_key ?a) ?w = Inr (u ''sk-test'')
      \<and> (respond ?w (EssayRequest (u ''sk-test'') (model ?a) (thinker_name ?a)) = Raises []
         \<or> (\<exists>content. respond ?w (EssayRequest (u ''sk-test'') (model ?a) (thinker_name ?a))
                 = Returns content \<and> strip content = []))"
    using s st a by blast
  have h2: "read_thinker_text (thinker_name ?a) ?w = Inr (u ''Essay.'')
      \<and> setup_openai_client (api_key ?a) ?w = Inr (u ''sk-test'')
      \<and> (respond ?w (QuestionnaireRequest (u ''sk-test'') (model ?a) (thinker_name ?a) (u ''Essay.''))
            = Raises []
         \<or> (\<exists>content. respond ?w
                 (QuestionnaireRequest (u ''sk-test'') (model ?a) (thinker_name ?a) (u ''Essay.''))
                 = Returns content \<and> strip content = []))"
    using r s st a by blast
  note inst = no_text_writes_no_file [of ?a ?w "u ''sk-test''" "[]" "u ''Essay.''"]
  from inst h1 have c1: "main_generate_thinker_meaning ?a ?w
            = (Inr Failed_to_generate,
               ?w\<lparr>calls := calls ?w @ [EssayRequest (u ''sk-test'') (model ?a) (thinker_name ?a)]\<rparr>)"
    by blast
  from inst h2 have c2: "files (snd (main_generate_thinker_questionnaires ?a ?w)) = files ?w"
    by blast
  show ?thesis
    using s st c1 c2 by (simp add: n)
qed

end
